theory Spec2Isabelle
  imports Complex_Main "HOL-Library.Sublist"
begin

section \<open>Python values\<close>

text \<open>
  The values a template file (TOML, read by \<open>tomllib\<close>) and a response body (JSON, read by
  \<open>response.json()\<close>) can hold.  Python's \<open>None\<close> is \<open>PNone\<close>.  A finite float is the rational
  number it denotes; infinities and NaN are separate values.  A date, time or datetime of
  TOML is kept as its text.  A dict is an association list with string keys, looked up
  with \<open>map_of\<close>.
\<close>

datatype pyfloat = Finite rat | PosInf | NegInf | NaN

datatype pyval =
    PNone
  | PBool bool
  | PInt int
  | PFloat pyfloat
  | PStr string
  | PDate string
  | PList "pyval list"
  | PDict "(string \<times> pyval) list"

datatype exn =
    AttributeError
  | TypeError
  | KeyError string
  | ValueError
  | FileNotFoundError
  | Raised string

text \<open>Truth value testing (\<open>if x:\<close>, \<open>not x\<close>).\<close>

fun truthy :: "pyval \<Rightarrow> bool" where
  "truthy PNone = False"
| "truthy (PBool b) = b"
| "truthy (PInt n) = (n \<noteq> 0)"
| "truthy (PFloat x) = (x \<noteq> Finite 0)"
| "truthy (PStr s) = (s \<noteq> [])"
| "truthy (PDate s) = True"
| "truthy (PList xs) = (xs \<noteq> [])"
| "truthy (PDict kvs) = (kvs \<noteq> [])"

text \<open>\<open>isinstance(x, T)\<close>.  In Python \<open>bool\<close> is a subclass of \<open>int\<close>.\<close>

fun isinstance_str :: "pyval \<Rightarrow> bool" where
  "isinstance_str (PStr s) = True"
| "isinstance_str v = False"

fun isinstance_bool :: "pyval \<Rightarrow> bool" where
  "isinstance_bool (PBool b) = True"
| "isinstance_bool v = False"

fun isinstance_int :: "pyval \<Rightarrow> bool" where
  "isinstance_int (PInt n) = True"
| "isinstance_int (PBool b) = True"
| "isinstance_int v = False"

fun isinstance_list :: "pyval \<Rightarrow> bool" where
  "isinstance_list (PList xs) = True"
| "isinstance_list v = False"

fun isinstance_dict :: "pyval \<Rightarrow> bool" where
  "isinstance_dict (PDict kvs) = True"
| "isinstance_dict v = False"

text \<open>\<open>n == v\<close> for an int \<open>n\<close>: numbers compare by value, \<open>True\<close> is 1 and \<open>False\<close> is 0.\<close>

fun eq_int :: "int \<Rightarrow> pyval \<Rightarrow> bool" where
  "eq_int n (PInt m) = (n = m)"
| "eq_int n (PBool b) = (n = (if b then 1 else 0))"
| "eq_int n (PFloat (Finite x)) = (of_int n = x)"
| "eq_int n v = False"

text \<open>\<open>v == s\<close> for a string literal \<open>s\<close>.\<close>

fun eq_str :: "pyval \<Rightarrow> string \<Rightarrow> bool" where
  "eq_str (PStr t) s = (t = s)"
| "eq_str v s = False"

text \<open>\<open>obj.get(key)\<close> and \<open>obj.get(key, default)\<close>: only a dict has the method.\<close>

fun py_get_default :: "pyval \<Rightarrow> string \<Rightarrow> pyval \<Rightarrow> exn + pyval" where
  "py_get_default (PDict kvs) k d = Inr (case map_of kvs k of None \<Rightarrow> d | Some v \<Rightarrow> v)"
| "py_get_default v k d = Inl AttributeError"

definition py_get :: "pyval \<Rightarrow> string \<Rightarrow> exn + pyval" where
  "py_get v k = py_get_default v k PNone"

section \<open>Dates and messages\<close>

text \<open>
  \<open>datetime\<close>: the three observations \<open>is_due\<close> makes of the reference date, as the
  datetime library reports them (\<open>weekday()\<close> with Monday = 0, \<open>day\<close>, \<open>month\<close>).
\<close>

record datetime =
  dt_weekday :: int
  dt_day :: int
  dt_month :: int

definition valid_datetime :: "datetime \<Rightarrow> bool" where
  "valid_datetime d =
     (0 \<le> dt_weekday d \<and> dt_weekday d \<le> 6 \<and> 1 \<le> dt_day d \<and> dt_day d \<le> 31
      \<and> 1 \<le> dt_month d \<and> dt_month d \<le> 12)"

text \<open>
  The entries of \<open>validation_errors\<close>.  Each constructor stands for one format string
  of the source, with the interpolated values kept as data; the text of an exception is
  either reported by the environment or that of an exception raised inside the model.
\<close>

datatype cause = Reported string | Caught exn

datatype message =
    TicketSectionNotFound string
  | FileNotFoundMsg string
  | TomlDecodeErrorMsg string
  | UnexpectedLoadingError cause
  | FieldMissing string
  | FieldNotString string pyval
  | IntegrationHelperNotBool pyval
  | ScheduleEmpty
  | FrequencyMissing
  | FrequencyInvalid pyval
  | DayOfWeekMissing
  | DayOfMonthMissing
  | QuarterlyFieldsMissing
  | AttachmentNotDict nat
  | PathMissing nat
  | PathInvalid nat
  | RequiredMissing nat
  | RequiredInvalid nat
  | RequiredFileMissing string nat

text \<open>
  What the logger is handed at level WARNING or ERROR (records of level INFO and DEBUG
  are not part of the model; where the arguments of such a record are evaluated and can
  raise, the evaluation is modelled).  One constructor for each format string.
\<close>

datatype level = WARNING | ERROR

datatype logtext =
    LogError message
  | TemplateFileNotFound string
  | ErrorDecodingToml string string
  | UnexpectedErrorLoading string cause
  | ValidationErrorIn string message
  | OptionalAttachmentMissing string nat string
  | RitmCreationViaHelperFailed string
  | RitmCreationViaApiFailed string
  | IntegrationClientRequired string
  | CreateUnexpectedResponse pyval
  | CreateFailed
  | UpdateTableNameRequired
  | UpdateSysIdRequired
  | UpdateUnexpectedResponse pyval string pyval
  | UpdateFailed pyval string
  | AttachArgumentsRequired
  | AttachFileNotFound pyval
  | AttachIOError pyval
  | AttachUnexpectedError pyval exn
  | AttachUnexpectedResponse pyval
  | AttachFailed string pyval string
  | HelperRequestError exn
  | FindRecordArgumentsRequired
  | FindRecordExpectedList pyval string
  | GetRecordTableNameRequired
  | GetRecordArgumentsRequired
  | GetRecordUnexpectedResponse pyval

section \<open>The world outside\<close>

text \<open>
  An f-string is kept as its parts, literal text and interpolated values, so that no
  rendering of a value as text has to be modelled.
\<close>

datatype fpart = Lit string | Val pyval

type_synonym fstring = "fpart list"

text \<open>What \<open>_execute_http_request\<close> is called with.\<close>

datatype request =
  Request (req_method: string) (req_url: fstring) (req_params: "(string \<times> fstring) list")
    (req_json: pyval) (req_data: "string option") (req_content_type: "string option")

text \<open>The operations of the two clients that a template invokes.\<close>

datatype call =
    CreateRequestedItem pyval string string
  | CreateRequestedItemViaHelper pyval string string
  | UpdateTicket string pyval pyval
  | AddAttachment string pyval pyval

datatype event = Log level logtext | Called call | Sent request

type_synonym trace = "event list"

datatype fs_entry = Missing | Directory | RegularFile "string option"

datatype file_outcome =
    NotFound
  | DecodeError string
  | OtherFailure string
  | Parsed "(string \<times> pyval) list"

text \<open>
  The environment of a run.  \<open>read_toml\<close> is \<open>open\<close> followed by \<open>tomllib.load\<close>;
  \<open>fs\<close> is the local file system (a regular file holds its bytes, or nothing when it
  cannot be read); \<open>fd_open\<close> says which file descriptors are open (\<open>os.path.exists\<close>
  accepts an integer); \<open>guess_type\<close> is \<open>mimetypes.guess_type\<close>; \<open>execute\<close> is
  \<open>_execute_http_request\<close>, the boundary to the remote system: given what has happened so
  far and a request, it returns the parsed body (\<open>PNone\<close> after a handled transport or
  HTTP error) or raises.
\<close>

record env =
  read_toml :: "string \<Rightarrow> file_outcome"
  fs :: "string \<Rightarrow> fs_entry"
  fd_open :: "int \<Rightarrow> bool"
  guess_type :: "string \<Rightarrow> string option"
  execute :: "trace \<Rightarrow> request \<Rightarrow> exn + pyval"

text \<open>\<open>os.path.isfile\<close> on a string.\<close>

definition isfile :: "env \<Rightarrow> string \<Rightarrow> bool" where
  "isfile e p = (case fs e p of RegularFile c \<Rightarrow> True | _ \<Rightarrow> False)"

text \<open>\<open>os.path.exists\<close>: a string names a path, an integer a file descriptor.\<close>

fun path_exists :: "env \<Rightarrow> pyval \<Rightarrow> exn + bool" where
  "path_exists e (PStr p) = Inr (fs e p \<noteq> Missing)"
| "path_exists e (PInt n) = Inr (fd_open e n)"
| "path_exists e (PBool b) = Inr (fd_open e (if b then 1 else 0))"
| "path_exists e v = Inl TypeError"

text \<open>\<open>open(path, "rb").read()\<close>; \<open>None\<close> stands for the \<open>IOError\<close>.\<close>

definition read_bytes :: "env \<Rightarrow> string \<Rightarrow> string option" where
  "read_bytes e p = (case fs e p of RegularFile c \<Rightarrow> c | _ \<Rightarrow> None)"

definition log_event :: "level \<Rightarrow> logtext \<Rightarrow> trace \<Rightarrow> trace" where
  "log_event l m tr = tr @ [Log l m]"

section \<open>The clients\<close>

text \<open>
  \<open>ServiceNowClient\<close> and its subclass \<open>ServiceNowIntegrationClient\<close>.  The methods of the
  base class take any extension of \<open>client\<close>, as the subclass inherits them.  A leading
  underscore of a Python name is dropped.
\<close>

record client =
  url :: string
  username :: string

record integration_client = client +
  integration_base_path :: string

text \<open>\<open>k in v\<close> and \<open>v[k]\<close> for a string \<open>k\<close>.\<close>

fun contains_str :: "string \<Rightarrow> string \<Rightarrow> bool" where
  "contains_str k [] = (k = [])"
| "contains_str k (c # cs) = (prefix k (c # cs) \<or> contains_str k cs)"

fun py_contains :: "pyval \<Rightarrow> string \<Rightarrow> exn + bool" where
  "py_contains (PDict kvs) k = Inr (map_of kvs k \<noteq> None)"
| "py_contains (PList xs) k = Inr (PStr k \<in> set xs)"
| "py_contains (PStr s) k = Inr (contains_str k s)"
| "py_contains v k = Inl TypeError"

fun py_subscript :: "pyval \<Rightarrow> string \<Rightarrow> exn + pyval" where
  "py_subscript (PDict kvs) k = (case map_of kvs k of None \<Rightarrow> Inl (KeyError k) | Some v \<Rightarrow> Inr v)"
| "py_subscript v k = Inl TypeError"

text \<open>
  \<open>lstrip('/')\<close> on an endpoint segment (exact for a segment that begins with literal
  text, as every segment of the source does), \<open>os.path.basename\<close> and \<open>",".join\<close>.
\<close>

fun lstrip_slash :: "fstring \<Rightarrow> fstring" where
  "lstrip_slash [] = []"
| "lstrip_slash (Lit s # r) =
     (case dropWhile (\<lambda>c. c = CHR ''/'') s of [] \<Rightarrow> lstrip_slash r | c # cs \<Rightarrow> Lit (c # cs) # r)"
| "lstrip_slash (Val v # r) = Val v # r"

definition basename :: "string \<Rightarrow> string" where
  "basename p = rev (takeWhile (\<lambda>c. c \<noteq> CHR ''/'') (rev p))"

fun join_comma :: "string list \<Rightarrow> string" where
  "join_comma [] = []"
| "join_comma [x] = x"
| "join_comma (x # y # ys) = x @ '','' @ join_comma (y # ys)"

definition build_api_url :: "'a client_scheme \<Rightarrow> fstring \<Rightarrow> fstring" where
  "build_api_url c endpoint_segment =
     [Lit (url c), Lit ''/api/now'', Lit ''/''] @ lstrip_slash endpoint_segment"

text \<open>The request is sent (and recorded) and the environment answers.\<close>

definition execute_http_request :: "env \<Rightarrow> request \<Rightarrow> trace \<Rightarrow> (exn + pyval) \<times> trace" where
  "execute_http_request e req tr = (execute e tr req, tr @ [Sent req])"

definition make_request ::
  "env \<Rightarrow> 'a client_scheme \<Rightarrow> string \<Rightarrow> fstring \<Rightarrow> (string \<times> fstring) list \<Rightarrow> pyval \<Rightarrow> trace
     \<Rightarrow> (exn + pyval) \<times> trace" where
  "make_request e c method endpoint_segment params payload tr =
     execute_http_request e
       (Request method (build_api_url c endpoint_segment) params payload None None) tr"

text \<open>
  \<open>_get_record\<close>.  \<open>query\<close> and \<open>limit\<close> are \<open>None\<close> when not given; a query that is given is
  a non-empty text.
\<close>

definition get_record ::
  "env \<Rightarrow> 'a client_scheme \<Rightarrow> string \<Rightarrow> pyval \<Rightarrow> fstring option \<Rightarrow> string list \<Rightarrow> int option
     \<Rightarrow> trace \<Rightarrow> (exn + pyval) \<times> trace" where
  "get_record e c table_name sys_id query field_names limit tr =
     (if table_name = [] then (Inl ValueError, log_event ERROR GetRecordTableNameRequired tr)
      else if \<not> truthy sys_id \<and> query = None
        then (Inl ValueError, log_event ERROR GetRecordArgumentsRequired tr)
      else
        (let endpoint_segment =
               (if truthy sys_id then [Lit ''table/'', Lit table_name, Lit ''/'', Val sys_id]
                else [Lit ''table/'', Lit table_name]);
             params0 =
               (if truthy sys_id then []
                else (case query of Some q \<Rightarrow> [(''sysparm_query'', q)] | None \<Rightarrow> []));
             params1 =
               (if field_names \<noteq> [] then params0 @ [(''sysparm_fields'', [Lit (join_comma field_names)])]
                else params0);
             params_for_request =
               (case limit of
                  Some l \<Rightarrow> params1 @ [(''sysparm_limit'', [Val (PInt l)])]
                | None \<Rightarrow> params1)
         in
         case make_request e c ''GET'' endpoint_segment params_for_request PNone tr of
           (Inl x, tr1) \<Rightarrow> (Inl x, tr1)
         | (Inr response_data, tr1) \<Rightarrow>
             if truthy response_data then
               (case py_contains response_data ''result'' of
                  Inl x \<Rightarrow> (Inl x, tr1)
                | Inr has_result \<Rightarrow>
                    if truthy sys_id \<and> \<not> has_result then (Inr response_data, tr1)
                    else if has_result then (py_subscript response_data ''result'', tr1)
                    else (Inr response_data,
                          log_event WARNING (GetRecordUnexpectedResponse response_data) tr1))
             else (Inr PNone, tr1)))"

definition find_record ::
  "env \<Rightarrow> 'a client_scheme \<Rightarrow> string \<Rightarrow> pyval \<Rightarrow> pyval \<Rightarrow> string list \<Rightarrow> trace
     \<Rightarrow> (exn + pyval) \<times> trace" where
  "find_record e c table_name sys_id number field_names tr =
     (if \<not> truthy sys_id \<and> \<not> truthy number
        then (Inl ValueError, log_event ERROR FindRecordArgumentsRequired tr)
      else if truthy sys_id then get_record e c table_name sys_id None field_names None tr
      else
        (case get_record e c table_name PNone (Some [Lit ''number='', Val number]) field_names
                (Some 1) tr of
           (Inl x, tr1) \<Rightarrow> (Inl x, tr1)
         | (Inr records_list, tr1) \<Rightarrow>
             (case records_list of
                PList (r # rs) \<Rightarrow> (Inr r, tr1)
              | PList [] \<Rightarrow> (Inr PNone, tr1)
              | _ \<Rightarrow>
                  if truthy records_list
                  then (Inr PNone,
                        log_event WARNING (FindRecordExpectedList number table_name) tr1)
                  else (Inr PNone, tr1))))"

definition get_requested_item ::
  "env \<Rightarrow> 'a client_scheme \<Rightarrow> pyval \<Rightarrow> pyval \<Rightarrow> string list \<Rightarrow> trace \<Rightarrow> (exn + pyval) \<times> trace" where
  "get_requested_item e c number sys_id field_names tr =
     find_record e c ''sc_req_item'' sys_id number field_names tr"

text \<open>\<open>ServiceNowClient.create_requested_item\<close>, with the optional arguments left out.\<close>

definition create_requested_item ::
  "env \<Rightarrow> 'a client_scheme \<Rightarrow> pyval \<Rightarrow> string \<Rightarrow> string \<Rightarrow> trace \<Rightarrow> (exn + pyval) \<times> trace" where
  "create_requested_item e c assignment_group_arg description_arg short_description_arg tr =
     (let tr0 = tr @ [Called (CreateRequestedItem assignment_group_arg description_arg
                                short_description_arg)];
          payload = PDict
            [(''caller_id'', PStr (username c)),
             (''contact_type'', PStr ''Interface''),
             (''requested_for'', PStr (username c)),
             (''u_kot_organization'', PNone),
             (''u_area'', PNone),
             (''u_service_group'', PNone),
             (''business_service'', PNone),
             (''category'', PNone),
             (''subcategory'', PNone),
             (''assignment_group'', assignment_group_arg),
             (''short_description'', PStr short_description_arg),
             (''description'', PStr description_arg)]
      in
      case make_request e c ''POST'' [Lit ''table/sc_req_item''] [] payload tr0 of
        (Inl x, tr1) \<Rightarrow> (Inl x, tr1)
      | (Inr response_data, tr1) \<Rightarrow>
          if truthy response_data then
            (case py_contains response_data ''result'' of
               Inl x \<Rightarrow> (Inl x, tr1)
             | Inr False \<Rightarrow>
                 (Inr PNone, log_event WARNING (CreateUnexpectedResponse response_data) tr1)
             | Inr True \<Rightarrow>
                 (case py_subscript response_data ''result'' of
                    Inl x \<Rightarrow> (Inl x, tr1)
                  | Inr created_record \<Rightarrow>
                      if isinstance_dict created_record then (Inr created_record, tr1)
                      else (Inr PNone,
                            log_event WARNING (CreateUnexpectedResponse response_data) tr1)))
          else (Inr PNone, log_event ERROR CreateFailed tr1))"

definition update_ticket ::
  "env \<Rightarrow> 'a client_scheme \<Rightarrow> string \<Rightarrow> pyval \<Rightarrow> pyval \<Rightarrow> trace \<Rightarrow> (exn + pyval) \<times> trace" where
  "update_ticket e c table_name sys_id payload tr =
     (let tr0 = tr @ [Called (UpdateTicket table_name sys_id payload)] in
      if table_name = [] then (Inl ValueError, log_event ERROR UpdateTableNameRequired tr0)
      else if \<not> truthy sys_id then (Inl ValueError, log_event ERROR UpdateSysIdRequired tr0)
      else
        case make_request e c ''PUT'' [Lit ''table/'', Lit table_name, Lit ''/'', Val sys_id] []
               payload tr0 of
          (Inl x, tr1) \<Rightarrow> (Inl x, tr1)
        | (Inr response_data, tr1) \<Rightarrow>
            if truthy response_data then
              (case py_contains response_data ''result'' of
                 Inl x \<Rightarrow> (Inl x, tr1)
               | Inr True \<Rightarrow>
                   (case py_subscript response_data ''result'' of
                      Inl x \<Rightarrow> (Inl x, tr1)
                    | Inr updated_record \<Rightarrow>
                        (case py_get updated_record ''sys_id'' of
                           Inl x \<Rightarrow> (Inl x, tr1)
                         | Inr logged_id \<Rightarrow> (Inr updated_record, tr1)))
               | Inr False \<Rightarrow>
                   (Inr response_data,
                    log_event WARNING
                      (UpdateUnexpectedResponse sys_id table_name response_data) tr1))
            else (Inr PNone, log_event ERROR (UpdateFailed sys_id table_name) tr1))"

text \<open>
  \<open>add_attachment\<close>; \<open>attachment_request\<close> is the request it sends, the raw bytes of the
  file to the attachment endpoint.  The two guards raise before the \<open>try\<close>; inside it, a file that cannot
  be read and anything the request raises are caught and logged.  A path that is no
  string makes \<open>os.path.exists\<close> or \<open>os.path.basename\<close> raise.
\<close>

definition attachment_request ::
  "'a client_scheme \<Rightarrow> (string \<times> fstring) list \<Rightarrow> string \<Rightarrow> string \<Rightarrow> request" where
  "attachment_request c params content_type file_content =
     Request ''POST'' [Lit (url c), Lit ''/api/now'', Lit ''/attachment/file'']
       params PNone (Some file_content) (Some content_type)"

definition add_attachment ::
  "env \<Rightarrow> 'a client_scheme \<Rightarrow> string \<Rightarrow> pyval \<Rightarrow> pyval \<Rightarrow> string option \<Rightarrow> trace
     \<Rightarrow> (exn + pyval) \<times> trace" where
  "add_attachment e c table_name sys_id file_path file_name tr =
     (let tr0 = tr @ [Called (AddAttachment table_name sys_id file_path)] in
      if table_name = [] \<or> \<not> truthy sys_id
        then (Inl ValueError, log_event ERROR AttachArgumentsRequired tr0)
      else
        case path_exists e file_path of
          Inl x \<Rightarrow> (Inl x, tr0)
        | Inr False \<Rightarrow> (Inl FileNotFoundError, log_event ERROR (AttachFileNotFound file_path) tr0)
        | Inr True \<Rightarrow>
            (case file_path of
               PStr p \<Rightarrow>
                 (let attachment_name =
                        (case file_name of
                           Some n \<Rightarrow> if n \<noteq> [] then n else basename p
                         | None \<Rightarrow> basename p);
                      params =
                        [(''table_name'', [Lit table_name]),
                         (''table_sys_id'', [Val sys_id]),
                         (''file_name'', [Lit attachment_name])];
                      content_type =
                        (case guess_type e p of
                           None \<Rightarrow> ''application/octet-stream''
                         | Some ct \<Rightarrow> ct);
                      attempt =
                        (case read_bytes e p of
                           None \<Rightarrow> (PNone, log_event ERROR (AttachIOError file_path) tr0)
                         | Some file_content \<Rightarrow>
                             (case execute_http_request e
                                     (attachment_request c params content_type file_content)
                                     tr0 of
                                (Inl x, tr1) \<Rightarrow>
                                  (PNone,
                                   log_event ERROR (AttachUnexpectedError file_path x) tr1)
                              | (Inr r, tr1) \<Rightarrow> (r, tr1)))
                  in
                  case attempt of
                    (response_data, tr2) \<Rightarrow>
                      if truthy response_data then
                        (case response_data of
                           PDict kvs \<Rightarrow>
                             (case map_of kvs ''result'' of
                                Some attachment_meta \<Rightarrow> (Inr attachment_meta, tr2)
                              | None \<Rightarrow>
                                  (Inr response_data,
                                   log_event WARNING (AttachUnexpectedResponse response_data) tr2))
                         | _ \<Rightarrow>
                             (Inr response_data,
                              log_event WARNING (AttachUnexpectedResponse response_data) tr2))
                      else
                        (Inr PNone,
                         log_event ERROR (AttachFailed attachment_name sys_id table_name) tr2))
             | _ \<Rightarrow> (Inl TypeError, tr0)))"

definition build_integration_url :: "integration_client \<Rightarrow> fstring" where
  "build_integration_url c = [Lit (url c), Lit ''/'', Lit (integration_base_path c)]"

definition make_integration_request ::
  "env \<Rightarrow> integration_client \<Rightarrow> string \<Rightarrow> pyval \<Rightarrow> trace \<Rightarrow> (exn + pyval) \<times> trace" where
  "make_integration_request e c method payload tr =
     execute_http_request e (Request method (build_integration_url c) [] payload None None) tr"

text \<open>
  \<open>ServiceNowIntegrationClient.create_requested_item\<close>: only the request is inside the
  \<open>try\<close>; the response is taken apart after it.
\<close>

definition helper_create_requested_item ::
  "env \<Rightarrow> integration_client \<Rightarrow> pyval \<Rightarrow> string \<Rightarrow> string \<Rightarrow> trace \<Rightarrow> (exn + pyval) \<times> trace" where
  "helper_create_requested_item e c assignment_group_arg short_description_arg description_arg tr =
     (let tr0 = tr @ [Called (CreateRequestedItemViaHelper assignment_group_arg
                                short_description_arg description_arg)];
          payload = PDict
            [(''requested_for'', assignment_group_arg),
             (''summary'', PStr short_description_arg),
             (''description'', PStr description_arg)]
      in
      case make_integration_request e c ''POST'' payload tr0 of
        (Inl x, tr1) \<Rightarrow> (Inr PNone, log_event ERROR (HelperRequestError x) tr1)
      | (Inr response, tr1) \<Rightarrow>
          if truthy response then
            (case py_contains response ''result'' of
               Inl x \<Rightarrow> (Inl x, tr1)
             | Inr False \<Rightarrow> (Inr PNone, tr1)
             | Inr True \<Rightarrow>
                 (case py_subscript response ''result'' of
                    Inl x \<Rightarrow> (Inl x, tr1)
                  | Inr res \<Rightarrow>
                      (case py_subscript res ''requestItemNumber'' of
                         Inl x \<Rightarrow> (Inl x, tr1)
                       | Inr created_ritm \<Rightarrow>
                           get_requested_item e c created_ritm PNone [] tr1)))
          else (Inr PNone, tr1))"


section \<open>The template\<close>

record ticket_template =
  template_path :: string
  assignment_group :: pyval
  short_description :: pyval
  description :: pyval
  integration_helper :: pyval
  schedule :: pyval
  attachments :: pyval
  validation_errors :: "message list"

text \<open>\<open>TicketTemplate.__init__\<close>\<close>

definition init_template :: "string \<Rightarrow> ticket_template" where
  "init_template path =
     \<lparr> template_path = path, assignment_group = PNone, short_description = PNone,
       description = PNone, integration_helper = PNone, schedule = PDict [],
       attachments = PList [], validation_errors = [] \<rparr>"

subsection \<open>load\<close>

text \<open>
  The assignments of \<open>load\<close> after the \<open>ticket\<close> section was found: each \<open>get\<close> can raise,
  and the fields assigned before it stay assigned.
\<close>

definition load_fields :: "pyval \<Rightarrow> ticket_template \<Rightarrow> (exn + unit) \<times> ticket_template" where
  "load_fields ticket_data t =
     (case py_get ticket_data ''assignment_group'' of
        Inl e \<Rightarrow> (Inl e, t)
      | Inr v1 \<Rightarrow>
     (let t1 = t\<lparr>assignment_group := v1\<rparr> in
      case py_get ticket_data ''short_description'' of
        Inl e \<Rightarrow> (Inl e, t1)
      | Inr v2 \<Rightarrow>
     (let t2 = t1\<lparr>short_description := v2\<rparr> in
      case py_get ticket_data ''description'' of
        Inl e \<Rightarrow> (Inl e, t2)
      | Inr v3 \<Rightarrow>
     (let t3 = t2\<lparr>description := v3\<rparr> in
      case py_get ticket_data ''integration_helper'' of
        Inl e \<Rightarrow> (Inl e, t3)
      | Inr v4 \<Rightarrow>
     (let t4 = t3\<lparr>integration_helper := v4\<rparr> in
      case py_get_default ticket_data ''schedule'' (PDict []) of
        Inl e \<Rightarrow> (Inl e, t4)
      | Inr v5 \<Rightarrow>
     (let t5 = t4\<lparr>schedule := v5\<rparr> in
      case py_get_default ticket_data ''attachments'' (PDict []) of
        Inl e \<Rightarrow> (Inl e, t5)
      | Inr attachments_data \<Rightarrow>
     (case py_get_default attachments_data ''files'' (PList []) of
        Inl e \<Rightarrow> (Inl e, t5)
      | Inr v6 \<Rightarrow> (Inr (), t5\<lparr>attachments := v6\<rparr>))))))))"

definition load :: "env \<Rightarrow> ticket_template \<Rightarrow> trace \<Rightarrow> bool \<times> ticket_template \<times> trace" where
  "load e t tr =
     (case read_toml e (template_path t) of
        Parsed template \<Rightarrow>
          (case map_of template ''ticket'' of
             None \<Rightarrow>
               (let msg = TicketSectionNotFound (template_path t) in
                (False, t\<lparr>validation_errors := validation_errors t @ [msg]\<rparr>,
                 log_event ERROR (LogError msg) tr))
           | Some ticket_data \<Rightarrow>
               (case load_fields ticket_data t of
                  (Inr u, t') \<Rightarrow> (True, t', tr)
                | (Inl x, t') \<Rightarrow>
                    (False,
                     t'\<lparr>validation_errors :=
                          validation_errors t' @ [UnexpectedLoadingError (Caught x)]\<rparr>,
                     log_event ERROR (UnexpectedErrorLoading (template_path t) (Caught x)) tr)))
      | NotFound \<Rightarrow>
          (False, t\<lparr>validation_errors := validation_errors t @ [FileNotFoundMsg (template_path t)]\<rparr>,
           log_event ERROR (TemplateFileNotFound (template_path t)) tr)
      | DecodeError x \<Rightarrow>
          (False, t\<lparr>validation_errors := validation_errors t @ [TomlDecodeErrorMsg x]\<rparr>,
           log_event ERROR (ErrorDecodingToml (template_path t) x) tr)
      | OtherFailure x \<Rightarrow>
          (False,
           t\<lparr>validation_errors := validation_errors t @ [UnexpectedLoadingError (Reported x)]\<rparr>,
           log_event ERROR (UnexpectedErrorLoading (template_path t) (Reported x)) tr))"

subsection \<open>validate_structure\<close>

text \<open>The loop over \<open>required_fields_map.items()\<close>.\<close>

fun check_required_fields :: "(string \<times> pyval) list \<Rightarrow> message list \<Rightarrow> message list" where
  "check_required_fields [] current_errors = current_errors"
| "check_required_fields ((field_name, field_value) # rest) current_errors =
     check_required_fields rest
       (if field_value = PNone then current_errors @ [FieldMissing field_name]
        else if \<not> isinstance_str field_value
          then current_errors @ [FieldNotString field_name field_value]
        else current_errors)"

definition check_integration_helper :: "pyval \<Rightarrow> message list \<Rightarrow> message list" where
  "check_integration_helper ih current_errors =
     (if ih \<noteq> PNone \<and> \<not> isinstance_bool ih
      then current_errors @ [IntegrationHelperNotBool ih] else current_errors)"

definition allowed_frequencies :: "string list" where
  "allowed_frequencies = [''daily'', ''weekly'', ''monthly'', ''quarterly'']"

text \<open>
  The block on \<open>schedule\<close>; \<open>self.schedule.get\<close> raises when the schedule is no dict.  The
  three later \<open>get\<close>s are written before the chain of conditions that uses them: once the
  first \<open>get\<close> has returned, the schedule is a dict and none of them can raise.
\<close>

definition check_schedule :: "pyval \<Rightarrow> message list \<Rightarrow> exn + message list" where
  "check_schedule sched current_errors =
     (if \<not> truthy sched then Inr (current_errors @ [ScheduleEmpty])
      else
        case py_get sched ''frequency'' of
          Inl e \<Rightarrow> Inl e
        | Inr frequency \<Rightarrow>
            if frequency = PNone then Inr (current_errors @ [FrequencyMissing])
            else
              (let errs1 =
                 (if \<not> list_ex (eq_str frequency) allowed_frequencies
                  then current_errors @ [FrequencyInvalid frequency] else current_errors)
               in
               case py_get sched ''day_of_week'' of
                 Inl e \<Rightarrow> Inl e
               | Inr day_of_week \<Rightarrow>
               (case py_get sched ''day_of_month'' of
                  Inl e \<Rightarrow> Inl e
                | Inr day_of_month \<Rightarrow>
               (case py_get sched ''months'' of
                  Inl e \<Rightarrow> Inl e
                | Inr months \<Rightarrow>
                    if eq_str frequency ''weekly'' \<and> day_of_week = PNone
                      then Inr (errs1 @ [DayOfWeekMissing])
                    else if eq_str frequency ''monthly'' \<and> day_of_month = PNone
                      then Inr (errs1 @ [DayOfMonthMissing])
                    else if eq_str frequency ''quarterly''
                            \<and> (months = PNone \<or> day_of_month = PNone)
                      then Inr (errs1 @ [QuarterlyFieldsMissing])
                    else Inr errs1))))"

text \<open>
  What a \<open>for\<close> loop iterates over: the elements of a list, the characters of a string,
  the keys of a dict; any other value of a template is not iterable.
\<close>

fun py_iter :: "pyval \<Rightarrow> exn + pyval list" where
  "py_iter (PList xs) = Inr xs"
| "py_iter (PStr s) = Inr (map (\<lambda>c. PStr [c]) s)"
| "py_iter (PDict kvs) = Inr (map (\<lambda>kv. PStr (fst kv)) kvs)"
| "py_iter v = Inl TypeError"

definition dict_get :: "(string \<times> pyval) list \<Rightarrow> string \<Rightarrow> pyval" where
  "dict_get kvs k = (case map_of kvs k of None \<Rightarrow> PNone | Some v \<Rightarrow> v)"

text \<open>
  The loop over \<open>enumerate(self.attachments)\<close>, with its accumulators \<open>current_errors\<close> and
  \<open>processed_attachments\<close> and the trace (for the warning).
\<close>

fun attachment_loop ::
  "env \<Rightarrow> string \<Rightarrow> nat \<Rightarrow> pyval list \<Rightarrow> message list \<Rightarrow> pyval list \<Rightarrow> trace
     \<Rightarrow> message list \<times> pyval list \<times> trace" where
  "attachment_loop e tp index [] current_errors processed tr = (current_errors, processed, tr)"
| "attachment_loop e tp index (file_item # rest) current_errors processed tr =
     (case file_item of
        PDict kvs \<Rightarrow>
          (let file_path = dict_get kvs ''path'';
               is_file_required = dict_get kvs ''required'';
               valid_file_path_str = (isinstance_str file_path \<and> truthy file_path);
               valid_is_file_required_bool = isinstance_bool is_file_required;
               errs1 =
                 (if file_path = PNone then current_errors @ [PathMissing index]
                  else if \<not> valid_file_path_str then current_errors @ [PathInvalid index]
                  else current_errors);
               errs2 =
                 (if is_file_required = PNone then errs1 @ [RequiredMissing index]
                  else if \<not> valid_is_file_required_bool then errs1 @ [RequiredInvalid index]
                  else errs1)
           in
           if \<not> (valid_file_path_str \<and> valid_is_file_required_bool)
             then attachment_loop e tp (Suc index) rest errs2 processed tr
           else
             (case file_path of
                PStr p \<Rightarrow>
                  (let file_exists = isfile e p in
                   if is_file_required = PBool True then
                     (if \<not> file_exists
                      then attachment_loop e tp (Suc index) rest
                             (errs2 @ [RequiredFileMissing p index]) processed tr
                      else attachment_loop e tp (Suc index) rest errs2
                             (processed @ [file_item]) tr)
                   else
                     (if \<not> file_exists
                      then attachment_loop e tp (Suc index) rest errs2 processed
                             (log_event WARNING (OptionalAttachmentMissing p index tp) tr)
                      else attachment_loop e tp (Suc index) rest errs2
                             (processed @ [file_item]) tr))
              | _ \<Rightarrow> attachment_loop e tp (Suc index) rest errs2 processed tr))
      | _ \<Rightarrow>
          attachment_loop e tp (Suc index) rest
            (current_errors @ [AttachmentNotDict index]) processed tr)"

text \<open>The final loop that logs every error of this call.\<close>

fun log_validation_errors :: "string \<Rightarrow> message list \<Rightarrow> trace \<Rightarrow> trace" where
  "log_validation_errors tp [] tr = tr"
| "log_validation_errors tp (err # errs) tr =
     log_validation_errors tp errs (log_event ERROR (ValidationErrorIn tp err) tr)"

definition validate_structure ::
  "env \<Rightarrow> ticket_template \<Rightarrow> trace \<Rightarrow> (exn + bool) \<times> ticket_template \<times> trace" where
  "validate_structure e t tr =
     (let errs1 =
            check_required_fields
              [(''short_description'', short_description t),
               (''description'', description t),
               (''assignment_group'', assignment_group t)] [];
          errs2 = check_integration_helper (integration_helper t) errs1
      in
      case check_schedule (schedule t) errs2 of
        Inl x \<Rightarrow> (Inl x, t, tr)
      | Inr errs3 \<Rightarrow>
          (case py_iter (attachments t) of
             Inl x \<Rightarrow> (Inl x, t, tr)
           | Inr items \<Rightarrow>
               (case attachment_loop e (template_path t) 0 items errs3 [] tr of
                  (current_errors, processed_attachments, tr1) \<Rightarrow>
                    (let t1 = t\<lparr>attachments := PList processed_attachments\<rparr> in
                     if current_errors \<noteq> [] then
                       (Inr False,
                        t1\<lparr>validation_errors := validation_errors t1 @ current_errors\<rparr>,
                        log_validation_errors (template_path t) current_errors tr1)
                     else (Inr True, t1, tr1)))))"


subsection \<open>is_due\<close>

definition is_due :: "ticket_template \<Rightarrow> datetime \<Rightarrow> exn + bool" where
  "is_due t today =
     (case py_get (schedule t) ''frequency'' of
        Inl e \<Rightarrow> Inl e
      | Inr frequency \<Rightarrow>
          if eq_str frequency ''daily'' then Inr (dt_weekday today < 5)
          else if eq_str frequency ''weekly'' then
            (case py_get (schedule t) ''day_of_week'' of
               Inl e \<Rightarrow> Inl e
             | Inr day_of_week \<Rightarrow>
                 Inr (isinstance_int day_of_week \<and> eq_int (dt_weekday today) day_of_week))
          else if eq_str frequency ''monthly'' then
            (case py_get (schedule t) ''day_of_month'' of
               Inl e \<Rightarrow> Inl e
             | Inr day_of_month \<Rightarrow>
                 Inr (isinstance_int day_of_month \<and> eq_int (dt_day today) day_of_month))
          else if eq_str frequency ''quarterly'' then
            (case py_get (schedule t) ''months'' of
               Inl e \<Rightarrow> Inl e
             | Inr months \<Rightarrow>
                (case py_get (schedule t) ''day_of_month'' of
                   Inl e \<Rightarrow> Inl e
                 | Inr day_of_month \<Rightarrow>
                     Inr ((case months of
                             PList ms \<Rightarrow>
                               isinstance_int day_of_month
                               \<and> list_ex (eq_int (dt_month today)) ms
                               \<and> eq_int (dt_day today) day_of_month
                           | _ \<Rightarrow> False))))
          else Inr False)"

subsection \<open>create_ticket\<close>

definition create_via_integration_helper ::
  "env \<Rightarrow> ticket_template \<Rightarrow> integration_client \<Rightarrow> trace \<Rightarrow> (exn + pyval) \<times> trace" where
  "create_via_integration_helper e t sn_integration_client tr =
     (case helper_create_requested_item e sn_integration_client (assignment_group t)
             ''Scheduled ticket'' ''Scheduled ticket'' tr of
        (Inl x, tr1) \<Rightarrow> (Inl x, tr1)
      | (Inr ritm_data, tr1) \<Rightarrow>
          if \<not> truthy ritm_data
            then (Inr PNone, log_event ERROR (RitmCreationViaHelperFailed (template_path t)) tr1)
          else
            (case py_get ritm_data ''sys_id'' of
               Inl x \<Rightarrow> (Inl x, tr1)
             | Inr sys_id \<Rightarrow>
                 (case py_get_default ritm_data ''number'' (PStr ''N/A'') of
                    Inl x \<Rightarrow> (Inl x, tr1)
                  | Inr ritm_number \<Rightarrow> (Inr ritm_data, tr1))))"

definition create_via_api ::
  "env \<Rightarrow> ticket_template \<Rightarrow> client \<Rightarrow> trace \<Rightarrow> (exn + pyval) \<times> trace" where
  "create_via_api e t sn_api_client tr =
     (case create_requested_item e sn_api_client (assignment_group t)
             ''Scheduled ticket'' ''Scheduled ticket'' tr of
        (Inl x, tr1) \<Rightarrow> (Inl x, tr1)
      | (Inr ritm_data, tr1) \<Rightarrow>
          if \<not> truthy ritm_data
            then (Inr PNone, log_event ERROR (RitmCreationViaApiFailed (template_path t)) tr1)
          else
            (case py_get ritm_data ''sys_id'' of
               Inl x \<Rightarrow> (Inl x, tr1)
             | Inr sys_id \<Rightarrow>
                 (case py_get_default ritm_data ''number'' (PStr ''N/A'') of
                    Inl x \<Rightarrow> (Inl x, tr1)
                  | Inr ritm_number \<Rightarrow> (Inr ritm_data, tr1))))"

text \<open>
  The loop of \<open>_finalize_details\<close> over the attachments: the result of \<open>add_attachment\<close> is
  dropped; an exception ends the loop.
\<close>

fun add_attachments ::
  "env \<Rightarrow> client \<Rightarrow> pyval \<Rightarrow> pyval list \<Rightarrow> trace \<Rightarrow> (exn + pyval) \<times> trace" where
  "add_attachments e c ticket_sys_id [] tr = (Inr PNone, tr)"
| "add_attachments e c ticket_sys_id (attachment_info # rest) tr =
     (case py_get attachment_info ''path'' of
        Inl x \<Rightarrow> (Inl x, tr)
      | Inr file_path \<Rightarrow>
          (case add_attachment e c ''sc_req_item'' ticket_sys_id file_path None tr of
             (Inl x, tr1) \<Rightarrow> (Inl x, tr1)
           | (Inr r, tr1) \<Rightarrow> add_attachments e c ticket_sys_id rest tr1))"

text \<open>\<open>_finalize_details\<close> has no \<open>return\<close>: where it ends, its value is \<open>None\<close>.\<close>

definition finalize_details ::
  "env \<Rightarrow> ticket_template \<Rightarrow> client \<Rightarrow> pyval \<Rightarrow> trace \<Rightarrow> (exn + pyval) \<times> trace" where
  "finalize_details e t sn_api_client ticket_sys_id tr =
     (let payload = PDict [(''short_description'', short_description t),
                           (''description'', description t)]
      in
      case update_ticket e sn_api_client ''sc_req_item'' ticket_sys_id payload tr of
        (Inl x, tr1) \<Rightarrow> (Inl x, tr1)
      | (Inr r, tr1) \<Rightarrow>
          if truthy (attachments t) then
            (case py_iter (attachments t) of
               Inl x \<Rightarrow> (Inl x, tr1)
             | Inr items \<Rightarrow> add_attachments e sn_api_client ticket_sys_id items tr1)
          else (Inr PNone, tr1))"

text \<open>
  Phase 1 of \<open>create_ticket\<close>, the choice of the creation path: \<open>None\<close> when the template
  asks for the integration helper and no integration client was given.
\<close>

definition select_creation_path ::
  "env \<Rightarrow> ticket_template \<Rightarrow> client \<Rightarrow> integration_client option \<Rightarrow> trace
     \<Rightarrow> ((exn + pyval) \<times> trace) option" where
  "select_creation_path e t sn_api_client sn_integration_client tr =
     (if truthy (integration_helper t)
      then (case sn_integration_client of
              Some ic \<Rightarrow> Some (create_via_integration_helper e t ic tr)
            | None \<Rightarrow> None)
      else Some (create_via_api e t sn_api_client tr))"

definition create_ticket ::
  "env \<Rightarrow> ticket_template \<Rightarrow> client \<Rightarrow> integration_client option \<Rightarrow> trace
     \<Rightarrow> (exn + pyval) \<times> trace" where
  "create_ticket e t sn_api_client sn_integration_client tr =
     (case select_creation_path e t sn_api_client sn_integration_client tr of
        None \<Rightarrow>
          (Inr (PBool False), log_event ERROR (IntegrationClientRequired (template_path t)) tr)
      | Some (Inl x, tr1) \<Rightarrow> (Inl x, tr1)
      | Some (Inr ticket_base, tr1) \<Rightarrow>
          if \<not> truthy ticket_base then (Inr (PBool False), tr1)
          else
            (case py_get ticket_base ''sys_id'' of
               Inl x \<Rightarrow> (Inl x, tr1)
             | Inr ticket_sys_id \<Rightarrow> finalize_details e t sn_api_client ticket_sys_id tr1))"

section \<open>Observations\<close>

text \<open>The client operations invoked in a trace, in order.\<close>

fun calls_of :: "trace \<Rightarrow> call list" where
  "calls_of [] = []"
| "calls_of (Called c # r) = c # calls_of r"
| "calls_of (Log l m # r) = calls_of r"
| "calls_of (Sent q # r) = calls_of r"

text \<open>
  A template object over its life: the four methods called in any order.  \<open>is_due\<close> and
  \<open>create_ticket\<close> only read the template.
\<close>

datatype operation =
    Load
  | Validate
  | IsDue datetime
  | CreateTicket client "integration_client option"

fun run_operation ::
  "env \<Rightarrow> operation \<Rightarrow> ticket_template \<times> trace \<Rightarrow> ticket_template \<times> trace" where
  "run_operation e Load (t, tr) = snd (load e t tr)"
| "run_operation e Validate (t, tr) = snd (validate_structure e t tr)"
| "run_operation e (IsDue today) (t, tr) =
     (case is_due t today of Inl x \<Rightarrow> (t, tr) | Inr b \<Rightarrow> (t, tr))"
| "run_operation e (CreateTicket c ic) (t, tr) = (t, snd (create_ticket e t c ic tr))"

fun run_operations ::
  "env \<Rightarrow> operation list \<Rightarrow> ticket_template \<times> trace \<Rightarrow> ticket_template \<times> trace" where
  "run_operations e [] st = st"
| "run_operations e (op # ops) st = run_operations e ops (run_operation e op st)"





section \<open>The specification's reading\<close>

text \<open>
  \<open>is_due\<close> as the specification words it, for a schedule that is a mapping: \<open>daily\<close> is
  due on weekday index 0 to 4; \<open>weekly\<close> when \<open>day_of_week\<close> is an integer equal to the
  weekday index; \<open>monthly\<close> when \<open>day_of_month\<close> is an integer equal to the day of the
  month; \<open>quarterly\<close> when \<open>months\<close> is a list containing the month number and
  \<open>day_of_month\<close> is an integer equal to the day of the month; anything else is not due.
  An integer is a value of TOML's integer type.
\<close>

definition spec_is_due :: "(string \<times> pyval) list \<Rightarrow> datetime \<Rightarrow> bool" where
  "spec_is_due sch d =
     (case map_of sch ''frequency'' of
        Some (PStr f) \<Rightarrow>
          if f = ''daily'' then 0 \<le> dt_weekday d \<and> dt_weekday d \<le> 4
          else if f = ''weekly'' then map_of sch ''day_of_week'' = Some (PInt (dt_weekday d))
          else if f = ''monthly'' then map_of sch ''day_of_month'' = Some (PInt (dt_day d))
          else if f = ''quarterly'' then
            (case map_of sch ''months'' of
               Some (PList ms) \<Rightarrow> PInt (dt_month d) \<in> set ms
             | _ \<Rightarrow> False)
            \<and> map_of sch ''day_of_month'' = Some (PInt (dt_day d))
          else False
      | _ \<Rightarrow> False)"

text \<open>
  Schedule values over which Python's numeric equality and TOML's types agree: no boolean
  or float where an integer is meant.
\<close>

fun plain_entry :: "pyval \<Rightarrow> bool" where
  "plain_entry (PBool b) = False"
| "plain_entry (PFloat x) = False"
| "plain_entry v = True"

definition plain_schedule :: "(string \<times> pyval) list \<Rightarrow> bool" where
  "plain_schedule sch =
     (plain_entry (dict_get sch ''day_of_week'') \<and> plain_entry (dict_get sch ''day_of_month'')
      \<and> (case dict_get sch ''months'' of PList ms \<Rightarrow> list_all plain_entry ms | _ \<Rightarrow> True))"

text \<open>
  The violations of a template as the specification lists them, rule by rule: the three
  required strings, the optional boolean, the schedule with the fields its frequency
  requires, and for every attachment entry its structure and, when that is valid and the
  file is required, the existence of the file.
\<close>

definition field_violations :: "string \<Rightarrow> pyval \<Rightarrow> message list" where
  "field_violations name v =
     (if v = PNone then [FieldMissing name]
      else if \<not> isinstance_str v then [FieldNotString name v] else [])"

definition integration_helper_violations :: "pyval \<Rightarrow> message list" where
  "integration_helper_violations ih =
     (if ih \<noteq> PNone \<and> \<not> isinstance_bool ih then [IntegrationHelperNotBool ih] else [])"

definition schedule_violations :: "(string \<times> pyval) list \<Rightarrow> message list" where
  "schedule_violations sch =
     (if sch = [] then [ScheduleEmpty]
      else if dict_get sch ''frequency'' = PNone then [FrequencyMissing]
      else
        (if dict_get sch ''frequency'' \<notin> set (map PStr allowed_frequencies)
         then [FrequencyInvalid (dict_get sch ''frequency'')] else [])
        @ (if dict_get sch ''frequency'' = PStr ''weekly'' \<and> dict_get sch ''day_of_week'' = PNone
           then [DayOfWeekMissing] else [])
        @ (if dict_get sch ''frequency'' = PStr ''monthly''
              \<and> dict_get sch ''day_of_month'' = PNone
           then [DayOfMonthMissing] else [])
        @ (if dict_get sch ''frequency'' = PStr ''quarterly''
              \<and> (dict_get sch ''months'' = PNone \<or> dict_get sch ''day_of_month'' = PNone)
           then [QuarterlyFieldsMissing] else []))"

fun item_violations :: "env \<Rightarrow> nat \<Rightarrow> pyval \<Rightarrow> message list" where
  "item_violations e i (PDict kvs) =
     (if dict_get kvs ''path'' = PNone then [PathMissing i]
      else if \<not> (isinstance_str (dict_get kvs ''path'') \<and> truthy (dict_get kvs ''path''))
        then [PathInvalid i] else [])
     @ (if dict_get kvs ''required'' = PNone then [RequiredMissing i]
        else if \<not> isinstance_bool (dict_get kvs ''required'') then [RequiredInvalid i] else [])
     @ (case dict_get kvs ''path'' of
          PStr f \<Rightarrow>
            if f \<noteq> [] \<and> dict_get kvs ''required'' = PBool True \<and> \<not> isfile e f
            then [RequiredFileMissing f i] else []
        | _ \<Rightarrow> [])"
| "item_violations e i v = [AttachmentNotDict i]"

text \<open>
  The entries that stay in \<open>attachments\<close>: structurally valid, with a file that exists.
\<close>

fun retained :: "env \<Rightarrow> pyval \<Rightarrow> bool" where
  "retained e (PDict kvs) =
     (case dict_get kvs ''path'' of
        PStr f \<Rightarrow> f \<noteq> [] \<and> isinstance_bool (dict_get kvs ''required'') \<and> isfile e f
      | _ \<Rightarrow> False)"
| "retained e v = False"

text \<open>The warning for a structurally valid, optional entry whose file is missing.\<close>

fun item_warnings :: "env \<Rightarrow> string \<Rightarrow> nat \<Rightarrow> pyval \<Rightarrow> trace" where
  "item_warnings e tp i (PDict kvs) =
     (case dict_get kvs ''path'' of
        PStr f \<Rightarrow>
          if f \<noteq> [] \<and> dict_get kvs ''required'' = PBool False \<and> \<not> isfile e f
          then [Log WARNING (OptionalAttachmentMissing f i tp)] else []
      | _ \<Rightarrow> [])"
| "item_warnings e tp i v = []"

definition attachment_violations :: "env \<Rightarrow> nat \<Rightarrow> pyval list \<Rightarrow> message list" where
  "attachment_violations e i items =
     concat (map (\<lambda>(j, x). item_violations e j x) (enumerate i items))"

definition attachment_warnings :: "env \<Rightarrow> string \<Rightarrow> nat \<Rightarrow> pyval list \<Rightarrow> trace" where
  "attachment_warnings e tp i items =
     concat (map (\<lambda>(j, x). item_warnings e tp j x) (enumerate i items))"

definition violations ::
  "env \<Rightarrow> ticket_template \<Rightarrow> (string \<times> pyval) list \<Rightarrow> pyval list \<Rightarrow> message list" where
  "violations e t sch items =
     field_violations ''short_description'' (short_description t)
     @ field_violations ''description'' (description t)
     @ field_violations ''assignment_group'' (assignment_group t)
     @ integration_helper_violations (integration_helper t)
     @ schedule_violations sch
     @ attachment_violations e 0 items"

section \<open>Example runs\<close>

text \<open>
  A remote system that answers every request with a result: the created or updated
  record, or for a lookup the list of matches.
\<close>

definition demo_client :: client where
  "demo_client = \<lparr> url = ''https://sn.example'', username = ''bot'' \<rparr>"

definition demo_helper :: integration_client where
  "demo_helper = \<lparr> url = ''https://sn.example'', username = ''bot'',
                    integration_base_path = ''api/x/helper'' \<rparr>"

definition demo_record :: pyval where
  "demo_record = PDict [(''sys_id'', PStr ''abc123''), (''number'', PStr ''RITM0001''),
                        (''requestItemNumber'', PStr ''RITM0001'')]"

definition demo_server :: "trace \<Rightarrow> request \<Rightarrow> exn + pyval" where
  "demo_server tr req =
     (if req_method req = ''GET'' then Inr (PDict [(''result'', PList [demo_record])])
      else Inr (PDict [(''result'', demo_record)]))"

definition demo_fs :: "string \<Rightarrow> fs_entry" where
  "demo_fs p =
     (if p = ''report.txt'' then RegularFile (Some ''data'')
      else if p = ''locked.txt'' then RegularFile None
      else Missing)"

definition demo_env :: env where
  "demo_env = \<lparr> read_toml = (\<lambda>p. NotFound), fs = demo_fs, fd_open = (\<lambda>n. False),
                 guess_type = (\<lambda>p. None), execute = demo_server \<rparr>"

text \<open>The same, with a remote system that cannot be reached.\<close>

definition offline_env :: env where
  "offline_env = demo_env\<lparr> execute := (\<lambda>tr req. Inr PNone) \<rparr>"

definition demo_template :: ticket_template where
  "demo_template =
     \<lparr> template_path = ''daily.toml'', assignment_group = PStr ''ops'',
       short_description = PStr ''Report'', description = PStr ''Send the report'',
       integration_helper = PNone, schedule = PDict [(''frequency'', PStr ''daily'')],
       attachments = PList [PDict [(''path'', PStr ''report.txt''), (''required'', PBool True)]],
       validation_errors = [] \<rparr>"

text \<open>
  A remote system whose integration endpoint answers with a \<open>result\<close> object that has no
  \<open>requestItemNumber\<close>, a request executor that raises, and a remote system that answers
  with the marker of an empty success.
\<close>

definition keyless_env :: env where
  "keyless_env =
     demo_env\<lparr> execute := (\<lambda>tr req. Inr (PDict [(''result'', PDict [(''number'', PStr ''RITM0001'')])])) \<rparr>"

definition raising_env :: env where
  "raising_env = demo_env\<lparr> execute := (\<lambda>tr req. Inl (Raised ''not serializable'')) \<rparr>"

definition marker_env :: env where
  "marker_env =
     demo_env\<lparr> execute := (\<lambda>tr req. Inr (PDict [(''status'', PStr ''success'')])) \<rparr>"

text \<open>A weekly schedule whose \<open>day_of_week\<close> is the boolean \<open>true\<close>, and a Tuesday.\<close>

definition tuesday :: datetime where
  "tuesday = \<lparr> dt_weekday = 1, dt_day = 2, dt_month = 1 \<rparr>"

definition boolean_weekly_schedule :: "(string \<times> pyval) list" where
  "boolean_weekly_schedule = [(''frequency'', PStr ''weekly''), (''day_of_week'', PBool True)]"

text \<open>
  Templates for validation: one that lacks \<open>short_description\<close> and has an unknown
  frequency; one with an existing required file and a missing optional file; one with
  a missing required file.
\<close>

definition bad_template :: ticket_template where
  "bad_template =
     demo_template\<lparr> short_description := PNone,
                    schedule := PDict [(''frequency'', PStr ''yearly'')] \<rparr>"

definition report_entry :: pyval where
  "report_entry = PDict [(''path'', PStr ''report.txt''), (''required'', PBool True)]"

definition notes_entry :: pyval where
  "notes_entry = PDict [(''path'', PStr ''notes.txt''), (''required'', PBool False)]"

definition missing_entry :: pyval where
  "missing_entry = PDict [(''path'', PStr ''missing.txt''), (''required'', PBool True)]"

definition optional_missing_template :: ticket_template where
  "optional_missing_template = demo_template\<lparr> attachments := PList [report_entry, notes_entry] \<rparr>"

definition required_missing_template :: ticket_template where
  "required_missing_template = demo_template\<lparr> attachments := PList [missing_entry] \<rparr>"

text \<open>
  A template that asks for the integration helper; a template with an unreadable and a
  readable file, and a remote system that accepts everything except uploads; a template
  validated when \<open>notes.txt\<close> still existed.
\<close>

definition helper_template :: ticket_template where
  "helper_template = demo_template\<lparr> integration_helper := PBool True \<rparr>"






text \<open>
  Two template files in which \<open>schedule\<close> is the string \<open>"daily"\<close> instead of a table: one
  without \<open>short_description\<close>, one complete and with a required attachment whose file does
  not exist; and the templates that \<open>load\<close> makes of them.
\<close>

definition no_summary_document :: "(string \<times> pyval) list" where
  "no_summary_document =
     [(''ticket'', PDict [(''description'', PStr ''Send the report''),
                          (''assignment_group'', PStr ''ops''),
                          (''schedule'', PStr ''daily'')])]"

definition missing_file_document :: "(string \<times> pyval) list" where
  "missing_file_document =
     [(''ticket'', PDict [(''short_description'', PStr ''Report''),
                          (''description'', PStr ''Send the report''),
                          (''assignment_group'', PStr ''ops''),
                          (''schedule'', PStr ''daily''),
                          (''attachments'', PDict [(''files'', PList [missing_entry])])])]"

definition documents_env :: env where
  "documents_env =
     demo_env\<lparr> read_toml :=
       (\<lambda>p. if p = ''no_summary.toml'' then Parsed no_summary_document
            else if p = ''missing_file.toml'' then Parsed missing_file_document
            else NotFound) \<rparr>"

definition no_summary_template :: ticket_template where
  "no_summary_template =
     \<lparr> template_path = ''no_summary.toml'', assignment_group = PStr ''ops'',
       short_description = PNone, description = PStr ''Send the report'',
       integration_helper = PNone, schedule = PStr ''daily'',
       attachments = PList [], validation_errors = [] \<rparr>"

definition missing_file_template :: ticket_template where
  "missing_file_template =
     \<lparr> template_path = ''missing_file.toml'', assignment_group = PStr ''ops'',
       short_description = PStr ''Report'', description = PStr ''Send the report'',
       integration_helper = PNone, schedule = PStr ''daily'',
       attachments = PList [missing_entry], validation_errors = [] \<rparr>"

lemmas demo_defs =
  demo_client_def demo_helper_def demo_record_def demo_server_def demo_fs_def demo_env_def
  offline_env_def demo_template_def keyless_env_def marker_env_def raising_env_def

lemmas entry_defs = report_entry_def notes_entry_def missing_entry_def

lemmas document_defs =
  no_summary_document_def missing_file_document_def documents_env_def no_summary_template_def
  missing_file_template_def

lemmas run_defs =
  create_ticket_def select_creation_path_def create_via_api_def create_via_integration_helper_def
  create_requested_item_def helper_create_requested_item_def make_integration_request_def
  get_requested_item_def find_record_def get_record_def build_integration_url_def
  make_request_def execute_http_request_def finalize_details_def update_ticket_def
  add_attachment_def attachment_request_def py_get_def read_bytes_def log_event_def
  build_api_url_def basename_def Let_def

lemmas validate_defs =
  validate_structure_def check_schedule_def check_integration_helper_def
  allowed_frequencies_def dict_get_def isfile_def

section \<open>Properties\<close>

subsection \<open>The calls a client operation adds to the trace\<close>

lemma calls_of_append [simp]: "calls_of (xs @ ys) = calls_of xs @ calls_of ys"
  by (induction xs rule: calls_of.induct) auto

lemma calls_of_log_event [simp]: "calls_of (log_event l m tr) = calls_of tr"
  by (simp add: log_event_def)

lemma execute_http_request_calls:
  "execute_http_request e r tr = (x, tr1) \<Longrightarrow> calls_of tr1 = calls_of tr"
  by (auto simp: execute_http_request_def)

lemma make_request_calls:
  "make_request e c m ep ps pl tr = (x, tr1) \<Longrightarrow> calls_of tr1 = calls_of tr"
  unfolding make_request_def by (rule execute_http_request_calls)

lemma get_record_calls:
  "get_record e c tn sid q fl l tr = (x, tr1) \<Longrightarrow> calls_of tr1 = calls_of tr"
  unfolding get_record_def Let_def
  by (auto split: if_splits prod.splits sum.splits dest: make_request_calls)

lemma find_record_calls:
  "find_record e c tn sid n fl tr = (x, tr1) \<Longrightarrow> calls_of tr1 = calls_of tr"
  unfolding find_record_def
  by (auto split: if_splits prod.splits sum.splits pyval.splits list.splits
           dest: get_record_calls)

lemma create_requested_item_calls:
  "create_requested_item e c a d s tr = (x, tr1) \<Longrightarrow>
     calls_of tr1 = calls_of tr @ [CreateRequestedItem a d s]"
  unfolding create_requested_item_def Let_def
  by (auto split: if_splits prod.splits sum.splits bool.splits dest!: make_request_calls)

lemma helper_create_requested_item_calls:
  "helper_create_requested_item e c a s d tr = (x, tr1) \<Longrightarrow>
     calls_of tr1 = calls_of tr @ [CreateRequestedItemViaHelper a s d]"
  unfolding helper_create_requested_item_def Let_def make_integration_request_def
    get_requested_item_def
  by (auto split: if_splits prod.splits sum.splits bool.splits
           dest!: execute_http_request_calls find_record_calls)

lemma update_ticket_calls:
  "update_ticket e c tn sid p tr = (x, tr1) \<Longrightarrow>
     calls_of tr1 = calls_of tr @ [UpdateTicket tn sid p]"
  unfolding update_ticket_def Let_def
  by (auto split: if_splits prod.splits sum.splits bool.splits dest!: make_request_calls)

lemma add_attachment_calls:
  "add_attachment e c tn sid fp fnm tr = (x, tr1) \<Longrightarrow>
     calls_of tr1 = calls_of tr @ [AddAttachment tn sid fp]"
  unfolding add_attachment_def Let_def
  by (auto split: if_splits prod.splits sum.splits bool.splits pyval.splits option.splits
           dest!: execute_http_request_calls)

lemma create_via_api_calls:
  "create_via_api e t c tr = (x, tr1) \<Longrightarrow>
     calls_of tr1 =
       calls_of tr @ [CreateRequestedItem (assignment_group t) ''Scheduled ticket''
                        ''Scheduled ticket'']"
  unfolding create_via_api_def
  by (auto split: prod.splits sum.splits if_splits dest: create_requested_item_calls)

lemma create_via_integration_helper_calls:
  "create_via_integration_helper e t h tr = (x, tr1) \<Longrightarrow>
     calls_of tr1 =
       calls_of tr @ [CreateRequestedItemViaHelper (assignment_group t) ''Scheduled ticket''
                        ''Scheduled ticket'']"
  unfolding create_via_integration_helper_def
  by (auto split: prod.splits sum.splits if_splits dest: helper_create_requested_item_calls)

subsection \<open>What create_ticket returns\<close>

lemma add_attachments_returns_none:
  "add_attachments e c sid items tr = (Inr v, tr') \<Longrightarrow> v = PNone"
  by (induction items arbitrary: tr) (auto split: sum.splits prod.splits)

lemma finalize_details_returns_none:
  "finalize_details e t c sid tr = (Inr v, tr') \<Longrightarrow> v = PNone"
  unfolding finalize_details_def Let_def
  by (auto split: sum.splits prod.splits if_splits dest: add_attachments_returns_none)

text \<open>
  C9.  Whenever \<open>create_ticket\<close> returns, its value is \<open>False\<close> or \<open>None\<close>, never \<open>True\<close>:
  the failure paths return the literal \<open>False\<close>, the success path returns what
  \<open>_finalize_details\<close> returns, which is \<open>None\<close>.  Either value is falsy for a caller that
  tests it.
\<close>

theorem create_ticket_never_true:
  assumes "create_ticket e t c ic tr = (Inr v, tr')"
  shows "(v = PBool False \<or> v = PNone) \<and> v \<noteq> PBool True \<and> \<not> truthy v"
  using assms unfolding create_ticket_def select_creation_path_def
  by (auto split: sum.splits prod.splits if_splits option.splits
           dest: finalize_details_returns_none)

text \<open>
  The run in which all three phases succeed (record created, details updated, file
  uploaded) still returns \<open>None\<close>.
\<close>

theorem create_ticket_never_true_witness:
  "fst (create_ticket demo_env demo_template demo_client None []) = Inr PNone
   \<and> calls_of (snd (create_ticket demo_env demo_template demo_client None [])) =
       [CreateRequestedItem (PStr ''ops'') ''Scheduled ticket'' ''Scheduled ticket'',
        UpdateTicket ''sc_req_item'' (PStr ''abc123'')
          (PDict [(''short_description'', PStr ''Report''),
                  (''description'', PStr ''Send the report'')]),
        AddAttachment ''sc_req_item'' (PStr ''abc123'') (PStr ''report.txt'')]
   \<and> (PNone = PBool False \<or> PNone = PNone) \<and> PNone \<noteq> PBool True \<and> \<not> truthy PNone"
proof -
  obtain tr' where run: "create_ticket demo_env demo_template demo_client None [] = (Inr PNone, tr')"
    by (simp add: create_ticket_def select_creation_path_def create_via_api_def create_requested_item_def
        make_request_def execute_http_request_def finalize_details_def update_ticket_def
        add_attachment_def attachment_request_def py_get_def read_bytes_def log_event_def
        build_api_url_def
        basename_def Let_def demo_defs)
  have calls: "calls_of (snd (create_ticket demo_env demo_template demo_client None [])) =
       [CreateRequestedItem (PStr ''ops'') ''Scheduled ticket'' ''Scheduled ticket'',
        UpdateTicket ''sc_req_item'' (PStr ''abc123'')
          (PDict [(''short_description'', PStr ''Report''),
                  (''description'', PStr ''Send the report'')]),
        AddAttachment ''sc_req_item'' (PStr ''abc123'') (PStr ''report.txt'')]"
    by (simp add: create_ticket_def select_creation_path_def create_via_api_def create_requested_item_def
        make_request_def execute_http_request_def finalize_details_def update_ticket_def
        add_attachment_def attachment_request_def py_get_def read_bytes_def log_event_def
        build_api_url_def
        basename_def Let_def demo_defs)
  from create_ticket_never_true [OF run] run calls show ?thesis by simp
qed

text \<open>
  C6.  With \<open>integration_helper\<close> true (or any truthy value) and no integration client,
  \<open>create_ticket\<close> returns \<open>False\<close>, and all it does is log the error: no client operation
  is invoked and no request is sent.
\<close>

theorem create_ticket_without_integration_client:
  assumes "truthy (integration_helper t)"
  shows "create_ticket e t c None tr =
           (Inr (PBool False), tr @ [Log ERROR (IntegrationClientRequired (template_path t))])"
  using assms by (simp add: create_ticket_def select_creation_path_def log_event_def)

theorem create_ticket_without_integration_client_witness:
  "truthy (integration_helper (demo_template\<lparr>integration_helper := PBool True\<rparr>))
   \<and> create_ticket demo_env (demo_template\<lparr>integration_helper := PBool True\<rparr>) demo_client
       None [] =
       (Inr (PBool False), [Log ERROR (IntegrationClientRequired ''daily.toml'')])"
proof -
  have h: "truthy (integration_helper (demo_template\<lparr>integration_helper := PBool True\<rparr>))"
    by simp
  from create_ticket_without_integration_client [OF h, of demo_env demo_client "[]"] h
  show ?thesis by (simp add: demo_template_def)
qed

text \<open>
  C7.  When the creation path that phase 1 chose returns no record, \<open>create_ticket\<close>
  returns \<open>False\<close> with the trace that the creation path left: the one creation call is
  the only client operation, so neither the update nor an upload is attempted.
\<close>

theorem create_ticket_phase1_failure:
  "(\<not> truthy (integration_helper t) \<and> fst (create_via_api e t c tr) = Inr r \<and> \<not> truthy r \<longrightarrow>
      create_ticket e t c ic tr = (Inr (PBool False), snd (create_via_api e t c tr))
      \<and> calls_of (snd (create_ticket e t c ic tr)) =
          calls_of tr @ [CreateRequestedItem (assignment_group t) ''Scheduled ticket''
                           ''Scheduled ticket''])
   \<and> (truthy (integration_helper t) \<and> fst (create_via_integration_helper e t h tr) = Inr r
        \<and> \<not> truthy r \<longrightarrow>
      create_ticket e t c (Some h) tr =
        (Inr (PBool False), snd (create_via_integration_helper e t h tr))
      \<and> calls_of (snd (create_ticket e t c (Some h) tr)) =
          calls_of tr @ [CreateRequestedItemViaHelper (assignment_group t) ''Scheduled ticket''
                           ''Scheduled ticket''])"
proof (intro conjI impI)
  assume a: "\<not> truthy (integration_helper t) \<and> fst (create_via_api e t c tr) = Inr r
               \<and> \<not> truthy r"
  obtain tr1 where b: "create_via_api e t c tr = (Inr r, tr1)"
    using a by (cases "create_via_api e t c tr") auto
  show c: "create_ticket e t c ic tr = (Inr (PBool False), snd (create_via_api e t c tr))"
    using a b by (simp add: create_ticket_def select_creation_path_def)
  show "calls_of (snd (create_ticket e t c ic tr)) =
          calls_of tr @ [CreateRequestedItem (assignment_group t) ''Scheduled ticket''
                           ''Scheduled ticket'']"
    using b c create_via_api_calls [OF b] by simp
next
  assume a: "truthy (integration_helper t)
               \<and> fst (create_via_integration_helper e t h tr) = Inr r \<and> \<not> truthy r"
  obtain tr1 where b: "create_via_integration_helper e t h tr = (Inr r, tr1)"
    using a by (cases "create_via_integration_helper e t h tr") auto
  show c: "create_ticket e t c (Some h) tr =
        (Inr (PBool False), snd (create_via_integration_helper e t h tr))"
    using a b by (simp add: create_ticket_def select_creation_path_def)
  show "calls_of (snd (create_ticket e t c (Some h) tr)) =
          calls_of tr @ [CreateRequestedItemViaHelper (assignment_group t) ''Scheduled ticket''
                           ''Scheduled ticket'']"
    using b c create_via_integration_helper_calls [OF b] by simp
qed

theorem create_ticket_phase1_failure_witness:
  "(\<not> truthy (integration_helper demo_template)
      \<and> fst (create_via_api offline_env demo_template demo_client []) = Inr PNone
      \<and> \<not> truthy PNone)
   \<and> fst (create_ticket offline_env demo_template demo_client None []) = Inr (PBool False)
   \<and> calls_of (snd (create_ticket offline_env demo_template demo_client None [])) =
        [CreateRequestedItem (PStr ''ops'') ''Scheduled ticket'' ''Scheduled ticket'']
   \<and> (truthy (integration_helper (demo_template\<lparr>integration_helper := PBool True\<rparr>))
      \<and> fst (create_via_integration_helper offline_env
                (demo_template\<lparr>integration_helper := PBool True\<rparr>) demo_helper []) = Inr PNone
      \<and> \<not> truthy PNone)
   \<and> fst (create_ticket offline_env (demo_template\<lparr>integration_helper := PBool True\<rparr>)
             demo_client (Some demo_helper) []) = Inr (PBool False)
   \<and> calls_of (snd (create_ticket offline_env (demo_template\<lparr>integration_helper := PBool True\<rparr>)
                       demo_client (Some demo_helper) [])) =
        [CreateRequestedItemViaHelper (PStr ''ops'') ''Scheduled ticket'' ''Scheduled ticket'']"
proof -
  let ?t2 = "demo_template\<lparr>integration_helper := PBool True\<rparr>"
  have h1: "\<not> truthy (integration_helper demo_template)
      \<and> fst (create_via_api offline_env demo_template demo_client []) = Inr PNone
      \<and> \<not> truthy PNone"
    by (simp add: create_via_api_def create_requested_item_def make_request_def
        execute_http_request_def log_event_def Let_def demo_defs)
  have h2: "truthy (integration_helper ?t2)
      \<and> fst (create_via_integration_helper offline_env ?t2 demo_helper []) = Inr PNone
      \<and> \<not> truthy PNone"
    by (simp add: create_via_integration_helper_def helper_create_requested_item_def
        make_integration_request_def execute_http_request_def log_event_def Let_def demo_defs)
  have ag: "assignment_group demo_template = PStr ''ops''"
           "assignment_group ?t2 = PStr ''ops''"
    by (simp_all add: demo_template_def)
  note a = create_ticket_phase1_failure
             [of demo_template offline_env demo_client "[]" PNone None, THEN conjunct1, rule_format,
              OF h1]
  note b = create_ticket_phase1_failure
             [of ?t2 offline_env demo_client "[]" PNone None demo_helper, THEN conjunct2,
              rule_format, OF h2]
  have a1: "fst (create_ticket offline_env demo_template demo_client None []) = Inr (PBool False)"
    using a [THEN conjunct1] by simp
  have a2: "calls_of (snd (create_ticket offline_env demo_template demo_client None [])) =
        [CreateRequestedItem (PStr ''ops'') ''Scheduled ticket'' ''Scheduled ticket'']"
    using a [THEN conjunct2] ag by simp
  have b1: "fst (create_ticket offline_env ?t2 demo_client (Some demo_helper) []) =
              Inr (PBool False)"
    using b [THEN conjunct1] by simp
  have b2: "calls_of (snd (create_ticket offline_env ?t2 demo_client (Some demo_helper) [])) =
        [CreateRequestedItemViaHelper (PStr ''ops'') ''Scheduled ticket'' ''Scheduled ticket'']"
    using b [THEN conjunct2] ag by simp
  show ?thesis
    by (intro conjI) (use h1 h2 a1 a2 b1 b2 in blast)+
qed

subsection \<open>The integration helper's creation path\<close>

text \<open>
  C10.  \<open>ServiceNowIntegrationClient.create_requested_item\<close> is not total over the shapes
  of a response.  Whenever the response is a dict whose \<open>result\<close> is a dict without the key
  \<open>requestItemNumber\<close>, the lookup after the \<open>try\<close> raises \<open>KeyError\<close>, which nothing
  catches.  When the response is \<open>None\<close>, or a dict without \<open>result\<close>, the method falls
  through its last \<open>if\<close> and yields \<open>None\<close>.  What the \<open>try\<close> does guard is the request:
  an exception raised there is caught and the method returns \<open>None\<close>.
\<close>

theorem helper_create_requested_item_response_shapes:
  "(fst (make_integration_request e c ''POST''
           (PDict [(''requested_for'', ag), (''summary'', PStr sd), (''description'', PStr d)])
           (tr @ [Called (CreateRequestedItemViaHelper ag sd d)])) = Inr (PDict kvs)
     \<and> map_of kvs ''result'' = Some (PDict res) \<and> map_of res ''requestItemNumber'' = None
     \<longrightarrow> fst (helper_create_requested_item e c ag sd d tr) = Inl (KeyError ''requestItemNumber''))
   \<and> (fst (make_integration_request e c ''POST''
           (PDict [(''requested_for'', ag), (''summary'', PStr sd), (''description'', PStr d)])
           (tr @ [Called (CreateRequestedItemViaHelper ag sd d)])) = Inr resp
     \<and> (resp = PNone \<or> resp = PDict kvs \<and> map_of kvs ''result'' = None)
     \<longrightarrow> fst (helper_create_requested_item e c ag sd d tr) = Inr PNone)
   \<and> (fst (make_integration_request e c ''POST''
           (PDict [(''requested_for'', ag), (''summary'', PStr sd), (''description'', PStr d)])
           (tr @ [Called (CreateRequestedItemViaHelper ag sd d)])) = Inl x
     \<longrightarrow> fst (helper_create_requested_item e c ag sd d tr) = Inr PNone)"
proof (intro conjI impI)
  let ?m = "make_integration_request e c ''POST''
           (PDict [(''requested_for'', ag), (''summary'', PStr sd), (''description'', PStr d)])
           (tr @ [Called (CreateRequestedItemViaHelper ag sd d)])"
  assume a: "fst ?m = Inr (PDict kvs)
     \<and> map_of kvs ''result'' = Some (PDict res) \<and> map_of res ''requestItemNumber'' = None"
  obtain tr1 where m: "?m = (Inr (PDict kvs), tr1)"
    using a by (cases ?m) auto
  have ne: "kvs \<noteq> []" using a by auto
  show "fst (helper_create_requested_item e c ag sd d tr) = Inl (KeyError ''requestItemNumber'')"
    using a m ne by (simp add: helper_create_requested_item_def)
next
  let ?m = "make_integration_request e c ''POST''
           (PDict [(''requested_for'', ag), (''summary'', PStr sd), (''description'', PStr d)])
           (tr @ [Called (CreateRequestedItemViaHelper ag sd d)])"
  assume a: "fst ?m = Inr resp
     \<and> (resp = PNone \<or> resp = PDict kvs \<and> map_of kvs ''result'' = None)"
  obtain tr1 where m: "?m = (Inr resp, tr1)"
    using a by (cases ?m) auto
  from a have "resp = PNone \<or> resp = PDict kvs \<and> map_of kvs ''result'' = None" by simp
  then show "fst (helper_create_requested_item e c ag sd d tr) = Inr PNone"
  proof
    assume "resp = PNone"
    then show ?thesis using m by (simp add: helper_create_requested_item_def)
  next
    assume "resp = PDict kvs \<and> map_of kvs ''result'' = None"
    then show ?thesis using m by (simp add: helper_create_requested_item_def)
  qed
next
  let ?m = "make_integration_request e c ''POST''
           (PDict [(''requested_for'', ag), (''summary'', PStr sd), (''description'', PStr d)])
           (tr @ [Called (CreateRequestedItemViaHelper ag sd d)])"
  assume a: "fst ?m = Inl x"
  obtain tr1 where m: "?m = (Inl x, tr1)"
    using a by (cases ?m) auto
  show "fst (helper_create_requested_item e c ag sd d tr) = Inr PNone"
    using m by (simp add: helper_create_requested_item_def)
qed

theorem helper_create_requested_item_response_shapes_witness:
  "fst (helper_create_requested_item keyless_env demo_helper (PStr ''ops'') ''Scheduled ticket''
          ''Scheduled ticket'' []) = Inl (KeyError ''requestItemNumber'')
   \<and> fst (helper_create_requested_item offline_env demo_helper (PStr ''ops'') ''Scheduled ticket''
          ''Scheduled ticket'' []) = Inr PNone
   \<and> fst (helper_create_requested_item marker_env demo_helper (PStr ''ops'') ''Scheduled ticket''
          ''Scheduled ticket'' []) = Inr PNone
   \<and> fst (helper_create_requested_item raising_env demo_helper (PStr ''ops'') ''Scheduled ticket''
          ''Scheduled ticket'' []) = Inr PNone"
proof -
  let ?p = "PDict [(''requested_for'', PStr ''ops''), (''summary'', PStr ''Scheduled ticket''),
                   (''description'', PStr ''Scheduled ticket'')]"
  let ?tr = "[] @ [Called (CreateRequestedItemViaHelper (PStr ''ops'') ''Scheduled ticket''
                     ''Scheduled ticket'')]"
  have h1: "fst (make_integration_request keyless_env demo_helper ''POST'' ?p ?tr) =
              Inr (PDict [(''result'', PDict [(''number'', PStr ''RITM0001'')])])
            \<and> map_of [(''result'', PDict [(''number'', PStr ''RITM0001'')])] ''result'' =
                Some (PDict [(''number'', PStr ''RITM0001'')])
            \<and> map_of [(''number'', PStr ''RITM0001'')] ''requestItemNumber'' = None"
    by (simp add: make_integration_request_def execute_http_request_def demo_defs)
  have h2: "fst (make_integration_request offline_env demo_helper ''POST'' ?p ?tr) = Inr PNone
            \<and> (PNone = PNone \<or> PNone = PDict [] \<and> map_of [] ''result'' = None)"
    by (simp add: make_integration_request_def execute_http_request_def demo_defs)
  have h3: "fst (make_integration_request marker_env demo_helper ''POST'' ?p ?tr) =
              Inr (PDict [(''status'', PStr ''success'')])
            \<and> (PDict [(''status'', PStr ''success'')] = PNone
                \<or> PDict [(''status'', PStr ''success'')] = PDict [(''status'', PStr ''success'')]
                  \<and> map_of [(''status'', PStr ''success'')] ''result'' = None)"
    by (simp add: make_integration_request_def execute_http_request_def demo_defs)
  have h4: "fst (make_integration_request raising_env demo_helper ''POST'' ?p ?tr) =
              Inl (Raised ''not serializable'')"
    by (simp add: make_integration_request_def execute_http_request_def demo_defs)
  note a = helper_create_requested_item_response_shapes [THEN conjunct1, rule_format, OF h1]
  note b = helper_create_requested_item_response_shapes
             [THEN conjunct2, THEN conjunct1, rule_format, OF h2]
  note c = helper_create_requested_item_response_shapes
             [THEN conjunct2, THEN conjunct1, rule_format, OF h3]
  note d = helper_create_requested_item_response_shapes
             [THEN conjunct2, THEN conjunct2, rule_format, OF h4]
  from a b c d show ?thesis by simp
qed

subsection \<open>validation_errors only grows\<close>

lemma validate_structure_validation_errors_prefix:
  "prefix (validation_errors t) (validation_errors (fst (snd (validate_structure e t tr))))"
  by (simp add: validate_structure_def Let_def split: sum.splits prod.splits
           del: check_required_fields.simps)

lemma load_fields_validation_errors:
  "validation_errors (snd (load_fields td t)) = validation_errors t"
  by (simp add: load_fields_def Let_def split: sum.splits)

lemma load_validation_errors_prefix:
  "prefix (validation_errors t) (validation_errors (fst (snd (load e t tr))))"
proof (cases "read_toml e (template_path t)")
  case (Parsed template)
  show ?thesis
  proof (cases "map_of template ''ticket''")
    case None
    with Parsed show ?thesis by (simp add: load_def Let_def)
  next
    case (Some ticket_data)
    obtain r t' where lf: "load_fields ticket_data t = (r, t')"
      by (cases "load_fields ticket_data t") auto
    have ve: "validation_errors t' = validation_errors t"
      using load_fields_validation_errors [of ticket_data t] lf by simp
    show ?thesis
      using Parsed Some lf ve by (cases r) (simp_all add: load_def)
  qed
qed (simp_all add: load_def)

lemma run_operation_prefix:
  "prefix (validation_errors (fst st)) (validation_errors (fst (run_operation e op st)))"
proof (cases st)
  case (Pair t tr)
  show ?thesis
  proof (cases op)
    case Load
    with Pair show ?thesis using load_validation_errors_prefix [of t e tr] by simp
  next
    case Validate
    with Pair show ?thesis using validate_structure_validation_errors_prefix [of t e tr] by simp
  next
    case (IsDue d)
    with Pair show ?thesis by (simp split: sum.splits)
  next
    case (CreateTicket c ic)
    with Pair show ?thesis by simp
  qed
qed

lemma run_operations_prefix:
  "prefix (validation_errors (fst st)) (validation_errors (fst (run_operations e ops st)))"
proof (induction ops arbitrary: st)
  case Nil
  then show ?case by simp
next
  case (Cons op ops)
  have "prefix (validation_errors (fst st)) (validation_errors (fst (run_operation e op st)))"
    by (rule run_operation_prefix)
  also have "prefix \<dots> (validation_errors (fst (run_operations e ops (run_operation e op st))))"
    by (rule Cons.IH)
  finally show ?case by simp
qed

lemma run_operations_append:
  "run_operations e (ops1 @ ops2) st = run_operations e ops2 (run_operations e ops1 st)"
  by (induction ops1 arbitrary: st) auto

text \<open>
  C8.  \<open>validation_errors\<close> is append-only.  For any sequence of calls of \<open>load\<close>,
  \<open>validate_structure\<close>, \<open>is_due\<close> and \<open>create_ticket\<close> on a template, in any environment
  and whether or not a call raises, the list as it was after the first part of the
  sequence is a prefix of the list after the whole sequence: entries are only added at
  the end, never removed, reordered or cleared.
\<close>

theorem validation_errors_append_only:
  "prefix (validation_errors (fst (run_operations e ops1 st)))
          (validation_errors (fst (run_operations e (ops1 @ ops2) st)))"
proof -
  let ?earlier = "run_operations e ops1 st"
  have "run_operations e (ops1 @ ops2) st = run_operations e ops2 ?earlier"
    by (rule run_operations_append)
  moreover
  have "prefix (validation_errors (fst ?earlier))
               (validation_errors (fst (run_operations e ops2 ?earlier)))"
    by (rule run_operations_prefix)
  ultimately show ?thesis by simp
qed

subsection \<open>is_due\<close>

lemma eq_int_plain: "plain_entry v \<Longrightarrow> eq_int n v = (v = PInt n)"
  by (cases v) auto

lemma list_ex_eq_int_plain:
  "list_all plain_entry ms \<Longrightarrow> list_ex (eq_int n) ms = (PInt n \<in> set ms)"
  by (induction ms) (auto simp: eq_int_plain)

lemma isinstance_int_plain: "plain_entry v \<Longrightarrow> isinstance_int v = (\<exists>n. v = PInt n)"
  by (cases v) auto

lemma is_due_daily:
  "schedule t = PDict sch \<Longrightarrow> map_of sch ''frequency'' = Some (PStr ''daily'') \<Longrightarrow>
     is_due t d = Inr (dt_weekday d < 5)"
  by (simp add: is_due_def py_get_def)

lemma is_due_weekly:
  "schedule t = PDict sch \<Longrightarrow> map_of sch ''frequency'' = Some (PStr ''weekly'') \<Longrightarrow>
     is_due t d = Inr (isinstance_int (dict_get sch ''day_of_week'')
                       \<and> eq_int (dt_weekday d) (dict_get sch ''day_of_week''))"
  by (simp add: is_due_def py_get_def dict_get_def)

lemma is_due_monthly:
  "schedule t = PDict sch \<Longrightarrow> map_of sch ''frequency'' = Some (PStr ''monthly'') \<Longrightarrow>
     is_due t d = Inr (isinstance_int (dict_get sch ''day_of_month'')
                       \<and> eq_int (dt_day d) (dict_get sch ''day_of_month''))"
  by (simp add: is_due_def py_get_def dict_get_def)

lemma is_due_quarterly:
  "schedule t = PDict sch \<Longrightarrow> map_of sch ''frequency'' = Some (PStr ''quarterly'') \<Longrightarrow>
     is_due t d = Inr (case dict_get sch ''months'' of
                         PList ms \<Rightarrow> isinstance_int (dict_get sch ''day_of_month'')
                                     \<and> list_ex (eq_int (dt_month d)) ms
                                     \<and> eq_int (dt_day d) (dict_get sch ''day_of_month'')
                       | _ \<Rightarrow> False)"
  by (auto simp add: is_due_def py_get_def dict_get_def split: option.splits pyval.splits)

lemma is_due_other:
  "schedule t = PDict sch \<Longrightarrow>
   \<not> eq_str (dict_get sch ''frequency'') ''daily'' \<Longrightarrow>
   \<not> eq_str (dict_get sch ''frequency'') ''weekly'' \<Longrightarrow>
   \<not> eq_str (dict_get sch ''frequency'') ''monthly'' \<Longrightarrow>
   \<not> eq_str (dict_get sch ''frequency'') ''quarterly'' \<Longrightarrow>
     is_due t d = Inr False"
  by (auto simp add: is_due_def py_get_def dict_get_def split: option.splits)

lemma is_due_total: "schedule t = PDict sch \<Longrightarrow> \<exists>b. is_due t d = Inr b"
  by (auto simp add: is_due_def py_get_def split: pyval.splits)

lemma is_due_agrees_on_plain_schedules:
  assumes s: "schedule t = PDict sch" and v: "valid_datetime d" and p: "plain_schedule sch"
  shows "is_due t d = Inr (spec_is_due sch d)"
proof (cases "map_of sch ''frequency''")
  case None
  then show ?thesis using s by (simp add: is_due_other dict_get_def spec_is_due_def)
next
  case (Some v)
  show ?thesis
  proof (cases "\<exists>f. v = PStr f")
    case False
    then have "\<not> eq_str v x" for x by (cases v) auto
    then show ?thesis using s Some False
      by (cases v) (simp_all add: is_due_other dict_get_def spec_is_due_def)
  next
    case True
    then obtain f where f: "v = PStr f" by blast
    have d: "0 \<le> dt_weekday d"
      using v by (simp add: valid_datetime_def)
    have pw: "plain_entry (dict_get sch ''day_of_week'')"
      and pm: "plain_entry (dict_get sch ''day_of_month'')"
      using p by (simp_all add: plain_schedule_def)
    consider "f = ''daily''" | "f = ''weekly''" | "f = ''monthly''" | "f = ''quarterly''"
      | "f \<noteq> ''daily''" "f \<noteq> ''weekly''" "f \<noteq> ''monthly''" "f \<noteq> ''quarterly''"
      by blast
    then show ?thesis
    proof cases
      case 1
      then show ?thesis using s Some f d by (auto simp: is_due_daily spec_is_due_def)
    next
      case 2
      then show ?thesis using s Some f pw
        by (auto simp: is_due_weekly spec_is_due_def eq_int_plain isinstance_int_plain dict_get_def
                 split: option.splits)
    next
      case 3
      then show ?thesis using s Some f pm
        by (auto simp: is_due_monthly spec_is_due_def eq_int_plain isinstance_int_plain dict_get_def
                 split: option.splits)
    next
      case 4
      have q: "is_due t d = Inr (case dict_get sch ''months'' of
                         PList ms \<Rightarrow> isinstance_int (dict_get sch ''day_of_month'')
                                     \<and> list_ex (eq_int (dt_month d)) ms
                                     \<and> eq_int (dt_day d) (dict_get sch ''day_of_month'')
                       | _ \<Rightarrow> False)"
        using s Some f 4 by (simp add: is_due_quarterly)
      show ?thesis
      proof (cases "dict_get sch ''months''")
        case (PList ms)
        then have "list_all plain_entry ms" using p by (simp add: plain_schedule_def)
        then have le: "list_ex (eq_int (dt_month d)) ms = (PInt (dt_month d) \<in> set ms)"
          by (rule list_ex_eq_int_plain)
        have mo: "map_of sch ''months'' = Some (PList ms)"
          using PList by (simp add: dict_get_def split: option.splits)
        show ?thesis using q PList le mo Some f 4 pm
          by (auto simp: spec_is_due_def eq_int_plain isinstance_int_plain dict_get_def
                   split: option.splits)
      next
        case PNone
        then show ?thesis using q Some f 4
          by (auto simp: spec_is_due_def dict_get_def split: option.splits pyval.splits)
      qed (use q Some f 4 in \<open>auto simp: spec_is_due_def dict_get_def split: option.splits\<close>)
    next
      case 5
      then show ?thesis using s Some f by (simp add: is_due_other dict_get_def spec_is_due_def)
    qed
  qed
qed

text \<open>
  C5.  The code departs from the claim where a schedule value is a boolean: \<open>bool\<close> is a
  subclass of \<open>int\<close> and \<open>True == 1\<close>, so a template with \<open>day_of_week = true\<close>, which
  \<open>validate_structure\<close> accepts, is due on every Tuesday, where the claim has a value that
  is no integer evaluate to false.  On schedules without such values the code and the
  claim agree (\<open>is_due_agrees_on_plain_schedules\<close>), and \<open>is_due\<close> raises for no schedule
  that is a mapping (\<open>is_due_total\<close>).
\<close>

theorem is_due_weekly_accepts_boolean:
  "is_due (demo_template\<lparr>schedule := PDict boolean_weekly_schedule\<rparr>) tuesday = Inr True
   \<and> \<not> spec_is_due boolean_weekly_schedule tuesday
   \<and> fst (validate_structure demo_env (demo_template\<lparr>schedule := PDict boolean_weekly_schedule\<rparr>) [])
       = Inr True"
  by (simp add: is_due_def spec_is_due_def py_get_def boolean_weekly_schedule_def tuesday_def
      validate_structure_def check_schedule_def check_integration_helper_def
      allowed_frequencies_def dict_get_def isfile_def demo_defs)

subsection \<open>validate_structure\<close>

lemma check_required_fields_append:
  "check_required_fields fvs errs =
     errs @ concat (map (\<lambda>(n, v). field_violations n v) fvs)"
  by (induction fvs errs rule: check_required_fields.induct) (auto simp: field_violations_def)

lemma check_integration_helper_append:
  "check_integration_helper ih errs = errs @ integration_helper_violations ih"
  by (simp add: check_integration_helper_def integration_helper_violations_def)

lemma eq_str_iff: "eq_str v s = (v = PStr s)"
  by (cases v) auto

lemma check_schedule_append:
  "check_schedule (PDict sch) errs = Inr (errs @ schedule_violations sch)"
proof (cases "sch = []")
  case True
  then show ?thesis by (simp add: check_schedule_def schedule_violations_def)
next
  case False
  have g: "py_get (PDict sch) k = Inr (dict_get sch k)" for k
    by (simp add: py_get_def dict_get_def)
  have m: "list_ex (eq_str v) allowed_frequencies = (v \<in> set (map PStr allowed_frequencies))" for v
    by (auto simp: allowed_frequencies_def eq_str_iff)
  show ?thesis
    using False unfolding check_schedule_def schedule_violations_def g m Let_def eq_str_iff
    by auto
qed

lemma attachment_loop_step:
  "attachment_loop e tp i (x # rest) errs processed tr =
     attachment_loop e tp (Suc i) rest (errs @ item_violations e i x)
       (processed @ (if retained e x then [x] else [])) (tr @ item_warnings e tp i x)"
proof (cases x)
  case (PDict kvs)
  show ?thesis
  proof (cases "dict_get kvs ''path''")
    case (PStr f)
    show ?thesis
      by (cases "dict_get kvs ''required''")
         (simp_all add: PDict PStr Let_def log_event_def)
  qed (cases "dict_get kvs ''required''"; simp add: PDict Let_def)+
qed simp_all

lemma attachment_loop_eq:
  "attachment_loop e tp i items errs processed tr =
     (errs @ attachment_violations e i items, processed @ filter (retained e) items,
      tr @ attachment_warnings e tp i items)"
proof (induction items arbitrary: i errs processed tr)
  case Nil
  then show ?case by (simp add: attachment_violations_def attachment_warnings_def)
next
  case (Cons x rest)
  show ?case
    unfolding attachment_loop_step Cons.IH
    by (simp add: attachment_violations_def attachment_warnings_def)
qed

lemma validate_structure_typed:
  assumes "schedule t = PDict sch" and "attachments t = PList items"
  shows "validate_structure e t tr =
           (Inr (violations e t sch items = []),
            t\<lparr>attachments := PList (filter (retained e) items),
              validation_errors := validation_errors t @ violations e t sch items\<rparr>,
            log_validation_errors (template_path t) (violations e t sch items)
              (tr @ attachment_warnings e (template_path t) 0 items))"
  using assms
  by (simp add: validate_structure_def check_required_fields_append
      check_integration_helper_append check_schedule_append attachment_loop_eq violations_def
      Let_def del: check_required_fields.simps)

text \<open>
  Outside those types the method can raise before anything is recorded: a schedule that
  is a non-empty value other than a mapping has no \<open>get\<close>.
\<close>

lemma validate_structure_ill_typed_schedule:
  assumes "truthy (schedule t)" and "\<not> isinstance_dict (schedule t)"
  shows "validate_structure e t tr = (Inl AttributeError, t, tr)"
  using assms
  by (cases "schedule t")
     (simp_all add: validate_structure_def check_schedule_def py_get_def Let_def
               del: check_required_fields.simps)

lemma log_validation_errors_eq:
  "log_validation_errors tp errs tr = tr @ map (\<lambda>err. Log ERROR (ValidationErrorIn tp err)) errs"
  by (induction errs arbitrary: tr) (auto simp: log_event_def)

lemma item_violations_subset:
  "j < length items \<Longrightarrow>
     set (item_violations e (k + j) (items ! j)) \<subseteq> set (attachment_violations e k items)"
  by (auto simp: attachment_violations_def in_set_enumerate_eq intro!: bexI [of _ "(k + j, items ! j)"])

lemma item_warnings_subset:
  "j < length items \<Longrightarrow>
     set (item_warnings e tp (k + j) (items ! j)) \<subseteq> set (attachment_warnings e tp k items)"
  by (auto simp: attachment_warnings_def in_set_enumerate_eq intro!: bexI [of _ "(k + j, items ! j)"])

text \<open>
  On typed templates (the schedule a mapping, the attachments a list) the method does
  accumulate: it returns, what it appends to \<open>validation_errors\<close> in that call is the list
  of all violations, those of every rule, each found whatever the other rules found, and
  it returns true exactly when that list is empty.
\<close>

lemma validate_structure_accumulates_all_violations:
  assumes "schedule t = PDict sch" and "attachments t = PList items"
  shows "fst (validate_structure e t tr) = Inr (violations e t sch items = [])
         \<and> validation_errors (fst (snd (validate_structure e t tr))) =
             validation_errors t @ violations e t sch items"
proof -
  note run = validate_structure_typed [OF assms, of e tr]
  have "fst (validate_structure e t tr) = Inr (violations e t sch items = [])"
    by (simp add: run)
  moreover
  have "validation_errors (fst (snd (validate_structure e t tr))) =
          validation_errors t @ violations e t sch items"
    by (simp add: run)
  ultimately show ?thesis by blast
qed

text \<open>
  The template without \<open>short_description\<close> is still checked for its frequency: both
  violations are recorded in the one pass.
\<close>

lemma validate_structure_accumulates_all_violations_witness:
  "schedule bad_template = PDict [(''frequency'', PStr ''yearly'')]
   \<and> attachments bad_template = PList [report_entry]
   \<and> fst (validate_structure demo_env bad_template []) = Inr False
   \<and> validation_errors (fst (snd (validate_structure demo_env bad_template []))) =
       [FieldMissing ''short_description'', FrequencyInvalid (PStr ''yearly'')]"
proof -
  have h1: "schedule bad_template = PDict [(''frequency'', PStr ''yearly'')]"
    by (simp add: bad_template_def)
  have h2: "attachments bad_template = PList [report_entry]"
    by (simp add: bad_template_def demo_template_def report_entry_def)
  have v: "violations demo_env bad_template [(''frequency'', PStr ''yearly'')] [report_entry] =
             [FieldMissing ''short_description'', FrequencyInvalid (PStr ''yearly'')]"
    by (simp add: violations_def field_violations_def integration_helper_violations_def
        schedule_violations_def attachment_violations_def allowed_frequencies_def dict_get_def
        isfile_def enumerate_eq_zip bad_template_def entry_defs demo_defs)
  have e: "validation_errors bad_template = []"
    by (simp add: bad_template_def demo_template_def)
  from validate_structure_accumulates_all_violations [OF h1 h2, of demo_env "[]"] h1 h2 v e
  show ?thesis by simp
qed

text \<open>
  On typed templates, for an entry of the attachment list that is structurally valid (a
  mapping with a non-empty string \<open>path\<close> and a boolean \<open>required\<close>): afterwards
  \<open>attachments\<close> is exactly the sublist, in the original order, of the structurally valid
  entries whose file exists, and the entry is in it if and only if its file exists.  A
  missing required file makes the method return false and record the error; a missing
  optional file adds no error for the entry, only a warning, so that the method returns
  true when there is no violation elsewhere; an entry whose file exists adds no error.
\<close>

lemma validate_structure_attachment_files:
  assumes "schedule t = PDict sch" and "attachments t = PList items"
    and "i < length items" and "items ! i = PDict kvs"
    and "dict_get kvs ''path'' = PStr f" and "f \<noteq> []"
    and "dict_get kvs ''required'' = PBool req"
  shows "attachments (fst (snd (validate_structure e t tr))) = PList (filter (retained e) items)
         \<and> retained e (items ! i) = isfile e f
         \<and> fst (validate_structure e t tr) = Inr (violations e t sch items = [])
         \<and> (\<not> isfile e f \<and> req \<longrightarrow>
              fst (validate_structure e t tr) = Inr False
              \<and> RequiredFileMissing f i
                  \<in> set (validation_errors (fst (snd (validate_structure e t tr)))))
         \<and> (\<not> isfile e f \<and> \<not> req \<longrightarrow>
              item_violations e i (items ! i) = []
              \<and> Log WARNING (OptionalAttachmentMissing f i (template_path t))
                  \<in> set (snd (snd (validate_structure e t tr))))
         \<and> (isfile e f \<longrightarrow> item_violations e i (items ! i) = [])"
proof -
  note vs = validate_structure_typed [OF assms(1,2), of e tr]
  have iv: "item_violations e i (items ! i) =
              (if req \<and> \<not> isfile e f then [RequiredFileMissing f i] else [])"
    using assms(4-7) by simp
  have iw: "item_warnings e (template_path t) i (items ! i) =
              (if \<not> req \<and> \<not> isfile e f
               then [Log WARNING (OptionalAttachmentMissing f i (template_path t))] else [])"
    using assms(4-7) by simp
  have sub: "set (item_violations e i (items ! i)) \<subseteq> set (violations e t sch items)"
    using item_violations_subset [OF assms(3), of e 0] by (auto simp: violations_def)
  have subw: "set (item_warnings e (template_path t) i (items ! i))
                \<subseteq> set (snd (snd (validate_structure e t tr)))"
    using item_warnings_subset [OF assms(3), of e "template_path t" 0]
    by (auto simp: vs log_validation_errors_eq)
  have a: "attachments (fst (snd (validate_structure e t tr))) = PList (filter (retained e) items)"
    by (simp add: vs)
  have b: "retained e (items ! i) = isfile e f"
    using assms(4-7) by simp
  have c: "fst (validate_structure e t tr) = Inr (violations e t sch items = [])"
    by (simp add: vs)
  have d: "\<not> isfile e f \<and> req \<longrightarrow>
              fst (validate_structure e t tr) = Inr False
              \<and> RequiredFileMissing f i
                  \<in> set (validation_errors (fst (snd (validate_structure e t tr))))"
  proof
    assume q: "\<not> isfile e f \<and> req"
    then have "RequiredFileMissing f i \<in> set (violations e t sch items)"
      using sub iv by auto
    then show "fst (validate_structure e t tr) = Inr False
              \<and> RequiredFileMissing f i
                  \<in> set (validation_errors (fst (snd (validate_structure e t tr))))"
      by (auto simp: vs)
  qed
  have ee: "\<not> isfile e f \<and> \<not> req \<longrightarrow>
              item_violations e i (items ! i) = []
              \<and> Log WARNING (OptionalAttachmentMissing f i (template_path t))
                  \<in> set (snd (snd (validate_structure e t tr)))"
    using iv iw subw by auto
  have ff: "isfile e f \<longrightarrow> item_violations e i (items ! i) = []"
    using iv by simp
  from a b c d ee ff show ?thesis by blast
qed

lemma validate_structure_attachment_files_witness:
  "fst (validate_structure demo_env optional_missing_template []) = Inr True
   \<and> attachments (fst (snd (validate_structure demo_env optional_missing_template []))) =
       PList [report_entry]
   \<and> Log WARNING (OptionalAttachmentMissing ''notes.txt'' 1 ''daily.toml'')
       \<in> set (snd (snd (validate_structure demo_env optional_missing_template [])))
   \<and> fst (validate_structure demo_env required_missing_template []) = Inr False
   \<and> RequiredFileMissing ''missing.txt'' 0
       \<in> set (validation_errors
                (fst (snd (validate_structure demo_env required_missing_template []))))"
proof -
  let ?sch = "[(''frequency'', PStr ''daily'')]"
  have s1: "schedule optional_missing_template = PDict ?sch"
    and a1: "attachments optional_missing_template = PList [report_entry, notes_entry]"
    and p1: "template_path optional_missing_template = ''daily.toml''"
    by (simp_all add: optional_missing_template_def demo_template_def)
  have s2: "schedule required_missing_template = PDict ?sch"
    and a2: "attachments required_missing_template = PList [missing_entry]"
    by (simp_all add: required_missing_template_def demo_template_def)
  have f1: "\<not> isfile demo_env ''notes.txt''" and f2: "\<not> isfile demo_env ''missing.txt''"
    and f3: "isfile demo_env ''report.txt''"
    by (simp_all add: isfile_def demo_defs)
  have v1: "violations demo_env optional_missing_template ?sch [report_entry, notes_entry] = []"
    using f1 f3
    by (simp add: violations_def field_violations_def integration_helper_violations_def
        schedule_violations_def attachment_violations_def allowed_frequencies_def dict_get_def
        enumerate_eq_zip optional_missing_template_def demo_template_def entry_defs)
  have r1: "filter (retained demo_env) [report_entry, notes_entry] = [report_entry]"
    using f1 f3 by (simp add: dict_get_def entry_defs)
  have n3: "1 < length [report_entry, notes_entry]"
    and n4: "[report_entry, notes_entry] ! 1 =
               PDict [(''path'', PStr ''notes.txt''), (''required'', PBool False)]"
    and n5: "dict_get [(''path'', PStr ''notes.txt''), (''required'', PBool False)] ''path'' =
               PStr ''notes.txt''"
    and n6: "''notes.txt'' \<noteq> []"
    and n7: "dict_get [(''path'', PStr ''notes.txt''), (''required'', PBool False)] ''required'' =
               PBool False"
    by (simp_all add: dict_get_def notes_entry_def)
  note w1 = validate_structure_attachment_files [OF s1 a1 n3 n4 n5 n6 n7, of demo_env "[]"]
  have c1: "attachments (fst (snd (validate_structure demo_env optional_missing_template []))) =
              PList [report_entry]
            \<and> fst (validate_structure demo_env optional_missing_template []) = Inr True
            \<and> Log WARNING (OptionalAttachmentMissing ''notes.txt'' 1 ''daily.toml'')
                \<in> set (snd (snd (validate_structure demo_env optional_missing_template [])))"
    using w1 f1 unfolding v1 r1 p1 by simp
  have m3: "0 < length [missing_entry]"
    and m4: "[missing_entry] ! 0 =
               PDict [(''path'', PStr ''missing.txt''), (''required'', PBool True)]"
    and m5: "dict_get [(''path'', PStr ''missing.txt''), (''required'', PBool True)] ''path'' =
               PStr ''missing.txt''"
    and m6: "''missing.txt'' \<noteq> []"
    and m7: "dict_get [(''path'', PStr ''missing.txt''), (''required'', PBool True)] ''required'' =
               PBool True"
    by (simp_all add: dict_get_def missing_entry_def)
  note w2 = validate_structure_attachment_files [OF s2 a2 m3 m4 m5 m6 m7, of demo_env "[]"]
  have c2: "fst (validate_structure demo_env required_missing_template []) = Inr False
            \<and> RequiredFileMissing ''missing.txt'' 0
                \<in> set (validation_errors
                         (fst (snd (validate_structure demo_env required_missing_template []))))"
    using w2 f2 by blast
  from c1 c2 show ?thesis by blast
qed

text \<open>
  C3.  The claim has \<open>validate_structure\<close> record every violation of a loaded template
  and return false when there is one, as its docstring promises (true if the structure
  is valid, false otherwise).  The code does not, for a template file that \<open>load\<close>
  accepts: with \<open>schedule = "daily"\<close>, a string where a table is meant, and no
  \<open>short_description\<close>, the method raises \<open>AttributeError\<close> at \<open>self.schedule.get\<close>.  It
  returns nothing, and the missing \<open>short_description\<close>, found earlier in the same pass,
  is not recorded: \<open>validation_errors\<close> stays empty.
\<close>

theorem validate_structure_text_schedule_loses_violations:
  "load documents_env (init_template ''no_summary.toml'') [] = (True, no_summary_template, [])
   \<and> short_description no_summary_template = PNone
   \<and> validate_structure documents_env no_summary_template [] =
       (Inl AttributeError, no_summary_template, [])
   \<and> validation_errors no_summary_template = []"
proof -
  have loaded: "load documents_env (init_template ''no_summary.toml'') [] =
                  (True, no_summary_template, [])"
    by (simp add: load_def load_fields_def py_get_def init_template_def Let_def document_defs
        demo_defs)
  have missing: "short_description no_summary_template = PNone"
    and unrecorded: "validation_errors no_summary_template = []"
    by (simp_all add: no_summary_template_def)
  have "truthy (schedule no_summary_template)"
    and "\<not> isinstance_dict (schedule no_summary_template)"
    by (simp_all add: no_summary_template_def)
  then have raised: "validate_structure documents_env no_summary_template [] =
                       (Inl AttributeError, no_summary_template, [])"
    by (rule validate_structure_ill_typed_schedule)
  from loaded missing raised unrecorded show ?thesis by blast
qed

text \<open>
  C4.  The claim has every structurally valid attachment entry checked for its file, a
  missing required file recorded as an error with the method returning false, and
  \<open>attachments\<close> replaced by the filtered list.  The code does none of this for a
  template file that \<open>load\<close> accepts and whose \<open>schedule\<close> is the string \<open>"daily"\<close>: the
  method raises \<open>AttributeError\<close> at \<open>self.schedule.get\<close>, before the loop over the
  attachments.  The required file \<open>missing.txt\<close> does not exist, yet no error is
  recorded, nothing is returned, and \<open>attachments\<close> still holds the entry.
\<close>

theorem validate_structure_text_schedule_skips_attachments:
  "load documents_env (init_template ''missing_file.toml'') [] =
     (True, missing_file_template, [])
   \<and> attachments missing_file_template = PList [missing_entry]
   \<and> \<not> isfile documents_env ''missing.txt''
   \<and> validate_structure documents_env missing_file_template [] =
       (Inl AttributeError, missing_file_template, [])
   \<and> validation_errors missing_file_template = []"
proof -
  have loaded: "load documents_env (init_template ''missing_file.toml'') [] =
                  (True, missing_file_template, [])"
    by (simp add: load_def load_fields_def py_get_def init_template_def Let_def document_defs
        demo_defs)
  have entry: "attachments missing_file_template = PList [missing_entry]"
    and unrecorded: "validation_errors missing_file_template = []"
    by (simp_all add: missing_file_template_def)
  have gone: "\<not> isfile documents_env ''missing.txt''"
    by (simp add: isfile_def document_defs demo_defs)
  have "truthy (schedule missing_file_template)"
    and "\<not> isinstance_dict (schedule missing_file_template)"
    by (simp_all add: missing_file_template_def)
  then have raised: "validate_structure documents_env missing_file_template [] =
                       (Inl AttributeError, missing_file_template, [])"
    by (rule validate_structure_ill_typed_schedule)
  from loaded entry gone raised unrecorded show ?thesis by blast
qed

subsection \<open>The three phases of create_ticket\<close>





lemma select_creation_path_calls:
  "select_creation_path e t c ic tr = Some (x, tr1) \<Longrightarrow>
     calls_of tr1 =
       calls_of tr @
       [if truthy (integration_helper t)
        then CreateRequestedItemViaHelper (assignment_group t) ''Scheduled ticket''
               ''Scheduled ticket''
        else CreateRequestedItem (assignment_group t) ''Scheduled ticket'' ''Scheduled ticket'']"
  by (auto simp: select_creation_path_def split: if_splits option.splits
           dest: create_via_api_calls create_via_integration_helper_calls)

lemma validate_structure_attachments_retained:
  "validate_structure e t tr = (Inr b, t', tr') \<Longrightarrow>
     \<exists>items. attachments t' = PList (filter (retained e) items)"
  by (auto simp: validate_structure_def attachment_loop_eq Let_def
           split: sum.splits if_splits
           simp del: check_required_fields.simps)

lemma retained_is_dict: "retained e a \<Longrightarrow> \<exists>kvs. a = PDict kvs"
  by (cases a) auto

lemma create_ticket_finalizes:
  assumes "select_creation_path e t c ic tr = Some (Inr ticket_base, tr1)"
    and "truthy ticket_base" and "py_get ticket_base ''sys_id'' = Inr sid"
  shows "create_ticket e t c ic tr = finalize_details e t c sid tr1"
  using assms by (simp add: create_ticket_def)

text \<open>
  C1, as amended.  For a template that \<open>validate_structure\<close> has accepted, that is due and
  that retains exactly one attachment: if phase 1, by either creation path, returned a
  record, and the update call for the \<open>sys_id\<close> of that record returned (which it does only
  for a non-empty \<open>sys_id\<close>), then \<open>create_ticket\<close> performs exactly one creation call, then
  exactly one update call with \<open>short_description\<close> and \<open>description\<close> of the template, then
  exactly one upload call for the path of the retained entry, in that order and nothing
  else, whatever the upload does.
\<close>

theorem create_ticket_call_sequence:
  assumes valid: "validate_structure e0 t0 tr0 = (Inr True, t, tr)"
    and due: "is_due t today = Inr True"
    and one: "attachments t = PList [a]"
    and created: "select_creation_path e t c ic tr = Some (Inr ticket_base, tr1)"
      "truthy ticket_base" "py_get ticket_base ''sys_id'' = Inr sid"
    and updated:
      "fst (update_ticket e c ''sc_req_item'' sid
              (PDict [(''short_description'', short_description t),
                      (''description'', description t)]) tr1) = Inr r"
  shows "\<exists>kvs. a = PDict kvs
           \<and> calls_of (snd (create_ticket e t c ic tr)) =
               calls_of tr @
               [if truthy (integration_helper t)
                then CreateRequestedItemViaHelper (assignment_group t) ''Scheduled ticket''
                       ''Scheduled ticket''
                else CreateRequestedItem (assignment_group t) ''Scheduled ticket''
                       ''Scheduled ticket'',
                UpdateTicket ''sc_req_item'' sid
                  (PDict [(''short_description'', short_description t),
                          (''description'', description t)]),
                AddAttachment ''sc_req_item'' sid (dict_get kvs ''path'')]"
proof -
  let ?payload = "PDict [(''short_description'', short_description t),
                         (''description'', description t)]"
  from validate_structure_attachments_retained [OF valid] one
  obtain items where "[a] = filter (retained e0) items" by auto
  then have "a \<in> set (filter (retained e0) items)"
    by (metis list.set_intros(1))
  then have "retained e0 a" by simp
  then obtain kvs where a: "a = PDict kvs" using retained_is_dict by blast
  obtain tr2 where u: "update_ticket e c ''sc_req_item'' sid ?payload tr1 = (Inr r, tr2)"
    using updated by (cases "update_ticket e c ''sc_req_item'' sid ?payload tr1") auto
  obtain x tr3 where at: "add_attachment e c ''sc_req_item'' sid (dict_get kvs ''path'') None tr2 =
                            (x, tr3)"
    by (cases "add_attachment e c ''sc_req_item'' sid (dict_get kvs ''path'') None tr2") auto
  have g: "py_get a ''path'' = Inr (dict_get kvs ''path'')"
    using a by (simp add: py_get_def dict_get_def)
  have fin: "snd (finalize_details e t c sid tr1) = tr3"
    using u one at g by (cases x) (simp_all add: finalize_details_def)
  have c1: "calls_of tr1 =
       calls_of tr @
       [if truthy (integration_helper t)
        then CreateRequestedItemViaHelper (assignment_group t) ''Scheduled ticket''
               ''Scheduled ticket''
        else CreateRequestedItem (assignment_group t) ''Scheduled ticket'' ''Scheduled ticket'']"
    by (rule select_creation_path_calls [OF created(1)])
  have c2: "calls_of tr2 = calls_of tr1 @ [UpdateTicket ''sc_req_item'' sid ?payload]"
    by (rule update_ticket_calls [OF u])
  have c3: "calls_of tr3 = calls_of tr2 @ [AddAttachment ''sc_req_item'' sid (dict_get kvs ''path'')]"
    by (rule add_attachment_calls [OF at])
  have "snd (create_ticket e t c ic tr) = tr3"
    using create_ticket_finalizes [OF created] fin by simp
  with a c1 c2 c3 show ?thesis by simp
qed


text \<open>
  C1 as stated fails.  The valid, due template with one retained attachment, against a
  remote system whose created record has a \<open>number\<close> and no \<open>sys_id\<close>: the creation call
  succeeds, the update call raises \<open>ValueError\<close> at its guard, and no upload call is
  made.
\<close>

theorem create_ticket_record_without_sys_id_counterexample:
  "validate_structure keyless_env demo_template [] = (Inr True, demo_template, [])
   \<and> attachments demo_template = PList [report_entry]
   \<and> is_due demo_template tuesday = Inr True
   \<and> fst (create_ticket keyless_env demo_template demo_client None []) = Inl ValueError
   \<and> calls_of (snd (create_ticket keyless_env demo_template demo_client None [])) =
       [CreateRequestedItem (PStr ''ops'') ''Scheduled ticket'' ''Scheduled ticket'',
        UpdateTicket ''sc_req_item'' PNone
          (PDict [(''short_description'', PStr ''Report''),
                  (''description'', PStr ''Send the report'')])]"
  by (simp add: run_defs validate_defs is_due_def tuesday_def demo_defs entry_defs)


text \<open>The two creation paths on the same template, with the same sequence of calls.\<close>

theorem create_ticket_call_sequence_witness:
  "validate_structure demo_env demo_template [] = (Inr True, demo_template, [])
   \<and> is_due demo_template tuesday = Inr True
   \<and> calls_of (snd (create_ticket demo_env demo_template demo_client None [])) =
       [CreateRequestedItem (PStr ''ops'') ''Scheduled ticket'' ''Scheduled ticket'',
        UpdateTicket ''sc_req_item'' (PStr ''abc123'')
          (PDict [(''short_description'', PStr ''Report''),
                  (''description'', PStr ''Send the report'')]),
        AddAttachment ''sc_req_item'' (PStr ''abc123'') (PStr ''report.txt'')]
   \<and> validate_structure demo_env helper_template [] = (Inr True, helper_template, [])
   \<and> is_due helper_template tuesday = Inr True
   \<and> calls_of (snd (create_ticket demo_env helper_template demo_client (Some demo_helper) [])) =
       [CreateRequestedItemViaHelper (PStr ''ops'') ''Scheduled ticket'' ''Scheduled ticket'',
        UpdateTicket ''sc_req_item'' (PStr ''abc123'')
          (PDict [(''short_description'', PStr ''Report''),
                  (''description'', PStr ''Send the report'')]),
        AddAttachment ''sc_req_item'' (PStr ''abc123'') (PStr ''report.txt'')]"
proof -
  let ?payload = "PDict [(''short_description'', PStr ''Report''),
                         (''description'', PStr ''Send the report'')]"
  have v1: "validate_structure demo_env demo_template [] = (Inr True, demo_template, [])"
    by (simp add: validate_defs py_get_def demo_defs)
  have d1: "is_due demo_template tuesday = Inr True"
    by (simp add: is_due_def py_get_def tuesday_def demo_defs)
  have o1: "attachments demo_template = PList [report_entry]"
    by (simp add: demo_template_def report_entry_def)
  obtain tr1 where s1: "select_creation_path demo_env demo_template demo_client None [] =
                          Some (Inr demo_record, tr1)"
    by (simp add: select_creation_path_def create_via_api_def create_requested_item_def
        make_request_def execute_http_request_def py_get_def Let_def demo_defs)
  have t1: "truthy demo_record" and g1: "py_get demo_record ''sys_id'' = Inr (PStr ''abc123'')"
    by (simp_all add: demo_record_def py_get_def)
  have f1: "short_description demo_template = PStr ''Report''"
           "description demo_template = PStr ''Send the report''"
           "assignment_group demo_template = PStr ''ops''"
           "\<not> truthy (integration_helper demo_template)"
    by (simp_all add: demo_template_def)
  have u1: "fst (update_ticket demo_env demo_client ''sc_req_item'' (PStr ''abc123'')
                   (PDict [(''short_description'', short_description demo_template),
                           (''description'', description demo_template)]) tr1) = Inr demo_record"
    by (simp add: update_ticket_def make_request_def execute_http_request_def py_get_def
        Let_def demo_defs)
  from create_ticket_call_sequence [OF v1 d1 o1 s1 t1 g1 u1]
  have c1: "calls_of (snd (create_ticket demo_env demo_template demo_client None [])) =
       [CreateRequestedItem (PStr ''ops'') ''Scheduled ticket'' ''Scheduled ticket'',
        UpdateTicket ''sc_req_item'' (PStr ''abc123'') ?payload,
        AddAttachment ''sc_req_item'' (PStr ''abc123'') (PStr ''report.txt'')]"
    using f1 by (auto simp: report_entry_def dict_get_def)
  have v2: "validate_structure demo_env helper_template [] = (Inr True, helper_template, [])"
    by (simp add: validate_defs py_get_def helper_template_def demo_defs)
  have d2: "is_due helper_template tuesday = Inr True"
    by (simp add: is_due_def py_get_def tuesday_def helper_template_def demo_defs)
  have o2: "attachments helper_template = PList [report_entry]"
    by (simp add: helper_template_def demo_template_def report_entry_def)
  obtain tr2 where s2: "select_creation_path demo_env helper_template demo_client
                          (Some demo_helper) [] = Some (Inr demo_record, tr2)"
    by (simp add: select_creation_path_def create_via_integration_helper_def
        helper_create_requested_item_def make_integration_request_def get_requested_item_def
        find_record_def get_record_def make_request_def execute_http_request_def py_get_def
        Let_def helper_template_def demo_defs)
  have f2: "short_description helper_template = PStr ''Report''"
           "description helper_template = PStr ''Send the report''"
           "assignment_group helper_template = PStr ''ops''"
           "truthy (integration_helper helper_template)"
    by (simp_all add: helper_template_def demo_template_def)
  have u2: "fst (update_ticket demo_env demo_client ''sc_req_item'' (PStr ''abc123'')
                   (PDict [(''short_description'', short_description helper_template),
                           (''description'', description helper_template)]) tr2) = Inr demo_record"
    by (simp add: update_ticket_def make_request_def execute_http_request_def py_get_def
        Let_def demo_defs)
  from create_ticket_call_sequence [OF v2 d2 o2 s2 t1 g1 u2]
  have c2: "calls_of (snd (create_ticket demo_env helper_template demo_client
                             (Some demo_helper) [])) =
       [CreateRequestedItemViaHelper (PStr ''ops'') ''Scheduled ticket'' ''Scheduled ticket'',
        UpdateTicket ''sc_req_item'' (PStr ''abc123'') ?payload,
        AddAttachment ''sc_req_item'' (PStr ''abc123'') (PStr ''report.txt'')]"
    using f2 by (auto simp: report_entry_def dict_get_def)
  from v1 d1 c1 v2 d2 c2 show ?thesis by blast
qed


end
